theory Spec2Isabelle
  imports Complex_Main "HOL-Library.AList"
begin

section \<open>Python values\<close>

text \<open>
  The functions of \<^verbatim>\<open>cdptools/legistar_utils/events.py\<close> work on the decoded JSON
  of the Legistar web API: dictionaries with string keys, lists, strings, numbers,
  booleans and \<^verbatim>\<open>None\<close>. A finite float is a rational number, and Python
  compares, truncates and tests it exactly, so \<open>PyFloat\<close> carries a rational.
  A dictionary is an association list read through \<open>map_of\<close>.
\<close>

datatype pyval =
    PyNone
  | PyBool bool
  | PyInt int
  | PyFloat rat
  | PyStr string
  | PyList "pyval list"
  | PyDict "(string \<times> pyval) list"

type_synonym dict = "(string \<times> pyval) list"

text \<open>The exceptions the code can raise; \<open>KeyError\<close> carries the missing key.\<close>

datatype error = KeyError string | TypeError | ValueError | AttributeError

text \<open>Truth value testing (\<^verbatim>\<open>if x:\<close>).\<close>

fun truthy :: "pyval \<Rightarrow> bool" where
  "truthy PyNone = False"
| "truthy (PyBool b) = b"
| "truthy (PyInt i) = (i \<noteq> 0)"
| "truthy (PyFloat q) = (q \<noteq> 0)"
| "truthy (PyStr s) = (s \<noteq> [])"
| "truthy (PyList xs) = (xs \<noteq> [])"
| "truthy (PyDict kvs) = (kvs \<noteq> [])"

text \<open>
  Subscription with a string key, \<^verbatim>\<open>x["k"]\<close>: a dictionary raises
  \<^verbatim>\<open>KeyError\<close> on a missing key, every other value raises \<^verbatim>\<open>TypeError\<close>.
\<close>

fun getitem :: "pyval \<Rightarrow> string \<Rightarrow> error + pyval" where
  "getitem (PyDict kvs) k = (case map_of kvs k of None \<Rightarrow> Inl (KeyError k) | Some v \<Rightarrow> Inr v)"
| "getitem _ k = Inl TypeError"

text \<open>
  Iteration, \<^verbatim>\<open>for x in v\<close>: a list yields its elements, a string its characters
  (one-character strings), a dictionary its keys; the other values are not iterable.
\<close>

fun py_iter :: "pyval \<Rightarrow> error + pyval list" where
  "py_iter (PyList xs) = Inr xs"
| "py_iter (PyStr s) = Inr (map (\<lambda>c. PyStr [c]) s)"
| "py_iter (PyDict kvs) = Inr (map (\<lambda>kv. PyStr (fst kv)) kvs)"
| "py_iter _ = Inl TypeError"

subsection \<open>Library functions\<close>

text \<open>
  The functions of the Python library and of \<^verbatim>\<open>fuzzywuzzy\<close> that the code calls are
  parameters of the model: \<^verbatim>\<open>fuzz.token_set_ratio\<close>, \<^verbatim>\<open>datetime.strptime\<close> with the
  format \<^verbatim>\<open>%Y-%m-%dT%I:%M %p\<close> (\<open>None\<close> when it raises \<^verbatim>\<open>ValueError\<close>),
  \<^verbatim>\<open>str.lower\<close>, \<^verbatim>\<open>str()\<close> of a value that is not a string, and \<^verbatim>\<open>int()\<close> of a
  string (\<open>None\<close> when it raises \<^verbatim>\<open>ValueError\<close>).
\<close>

record datetime =
  dt_year :: nat
  dt_month :: nat
  dt_day :: nat
  dt_hour :: nat
  dt_minute :: nat

record pylib =
  token_set_ratio :: "string list \<Rightarrow> pyval list \<Rightarrow> int"
  strptime :: "string \<Rightarrow> datetime option"
  str_lower :: "string \<Rightarrow> string"
  str_of :: "pyval \<Rightarrow> string"
  int_of_str :: "string \<Rightarrow> int option"

text \<open>
  \<^verbatim>\<open>int(x)\<close>: an integer is itself, a boolean is 0 or 1, a float is truncated
  towards zero, a string is parsed; \<^verbatim>\<open>None\<close>, lists and dictionaries raise
  \<^verbatim>\<open>TypeError\<close>.
\<close>

fun py_int :: "pylib \<Rightarrow> pyval \<Rightarrow> error + int" where
  "py_int L (PyInt i) = Inr i"
| "py_int L (PyBool b) = Inr (if b then 1 else 0)"
| "py_int L (PyFloat q) = Inr (if 0 \<le> q then \<lfloor>q\<rfloor> else \<lceil>q\<rceil>)"
| "py_int L (PyStr s) = (case int_of_str L s of None \<Rightarrow> Inl ValueError | Some i \<Rightarrow> Inr i)"
| "py_int L _ = Inl TypeError"

text \<open>\<^verbatim>\<open>"{}".format(x)\<close>: a string is inserted as it is, any other value through \<^verbatim>\<open>str()\<close>.\<close>

fun py_format :: "pylib \<Rightarrow> pyval \<Rightarrow> string" where
  "py_format L (PyStr s) = s"
| "py_format L v = str_of L v"

subsection \<open>Dictionaries keyed by values\<close>

text \<open>
  The score map of the matcher is keyed by the events' \<^verbatim>\<open>EventId\<close> values. Python
  hashes the key: lists and dictionaries are unhashable (\<^verbatim>\<open>TypeError\<close>), and
  numbers that compare equal (\<^verbatim>\<open>1\<close>, \<^verbatim>\<open>1.0\<close>, \<^verbatim>\<open>True\<close>) are one key.
  \<open>hash_key\<close> is the key a value stands for; the dictionary is an association list in
  insertion order, and storing under an existing key replaces the value in place.
\<close>

datatype pykey = KNone | KNum rat | KStr string

fun hash_key :: "pyval \<Rightarrow> pykey option" where
  "hash_key PyNone = Some KNone"
| "hash_key (PyBool b) = Some (KNum (if b then 1 else 0))"
| "hash_key (PyInt i) = Some (KNum (of_int i))"
| "hash_key (PyFloat q) = Some (KNum q)"
| "hash_key (PyStr s) = Some (KStr s)"
| "hash_key (PyList xs) = None"
| "hash_key (PyDict kvs) = None"

type_synonym scores = "(pyval \<times> int) list"

fun store :: "scores \<Rightarrow> pyval \<Rightarrow> int \<Rightarrow> scores" where
  "store [] k v = [(k, v)]"
| "store ((k', v') # rest) k v =
     (if hash_key k' = hash_key k then (k', v) # rest else (k', v') # store rest k v)"

definition setitem :: "scores \<Rightarrow> pyval \<Rightarrow> int \<Rightarrow> error + scores" where
  "setitem d k v = (case hash_key k of None \<Rightarrow> Inl TypeError | Some _ \<Rightarrow> Inr (store d k v))"

fun score_of :: "scores \<Rightarrow> pyval \<Rightarrow> int option" where
  "score_of [] k = None"
| "score_of ((k', v') # rest) k = (if hash_key k' = hash_key k then Some v' else score_of rest k)"

section \<open>The matcher\<close>

record AgendaMatchResults =
  selected_event :: pyval
  match_scores :: scores

text \<open>
  Lines 144 to 149: the display names of an event's items, the matter name when it is
  truthy and the title otherwise.
\<close>

fun event_minutes_items :: "pyval list \<Rightarrow> error + pyval list" where
  "event_minutes_items [] = Inr []"
| "event_minutes_items (ei # rest) =
     (case getitem ei ''EventItemMatterName'' of
        Inl e \<Rightarrow> Inl e
      | Inr matter_name \<Rightarrow>
          (case (if truthy matter_name then Inr matter_name else getitem ei ''EventItemTitle'') of
             Inl e \<Rightarrow> Inl e
           | Inr n \<Rightarrow>
               (case event_minutes_items rest of
                  Inl e \<Rightarrow> Inl e
                | Inr ns \<Rightarrow> Inr (n # ns))))"

text \<open>Lines 144 to 152: the score of one event against the lower-cased names provided.\<close>

definition match_score :: "pylib \<Rightarrow> string list \<Rightarrow> dict \<Rightarrow> error + int" where
  "match_score L provided event =
     (case getitem (PyDict event) ''EventItems'' of
        Inl e \<Rightarrow> Inl e
      | Inr items \<Rightarrow>
          (case py_iter items of
             Inl e \<Rightarrow> Inl e
           | Inr eis \<Rightarrow>
               (case event_minutes_items eis of
                  Inl e \<Rightarrow> Inl e
                | Inr names \<Rightarrow> Inr (token_set_ratio L provided names))))"

text \<open>
  Lines 139 to 160: the loop over the events, on the state \<open>(max_score, selected_event,
  scores)\<close>. \<open>max_score\<close> starts at \<^verbatim>\<open>0.0\<close> and is compared with integer scores, which
  Python does exactly.
\<close>

fun rank_events ::
  "pylib \<Rightarrow> string list \<Rightarrow> dict list \<Rightarrow> int \<times> pyval \<times> scores \<Rightarrow> error + (int \<times> pyval \<times> scores)"
where
  "rank_events L provided [] st = Inr st"
| "rank_events L provided (event # rest) (max_score, selected, scs) =
     (case match_score L provided event of
        Inl e \<Rightarrow> Inl e
      | Inr sc \<Rightarrow>
          (case getitem (PyDict event) ''EventId'' of
             Inl e \<Rightarrow> Inl e
           | Inr eid \<Rightarrow>
               (case setitem scs eid sc of
                  Inl e \<Rightarrow> Inl e
                | Inr scs' \<Rightarrow>
                    (if sc > max_score
                     then rank_events L provided rest (sc, PyDict event, scs')
                     else rank_events L provided rest (max_score, selected, scs')))))"

definition get_matching_legistar_event_by_minutes_match ::
  "pylib \<Rightarrow> string list \<Rightarrow> dict list \<Rightarrow> error + AgendaMatchResults"
where
  "get_matching_legistar_event_by_minutes_match L minutes_items_provided legistar_events =
     (if length legistar_events = 1 then
        (case getitem (PyDict (hd legistar_events)) ''EventId'' of
           Inl e \<Rightarrow> Inl e
         | Inr eid \<Rightarrow>
             (case setitem [] eid 100 of
                Inl e \<Rightarrow> Inl e
              | Inr scs \<Rightarrow>
                  Inr \<lparr>selected_event = PyDict (hd legistar_events), match_scores = scs\<rparr>))
      else if length legistar_events > 1 then
        (case rank_events L (map (str_lower L) minutes_items_provided) legistar_events
                (0, PyNone, []) of
           Inl e \<Rightarrow> Inl e
         | Inr (max_score, selected, scs) \<Rightarrow>
             Inr \<lparr>selected_event = selected, match_scores = scs\<rparr>)
      else Inr \<lparr>selected_event = PyDict [], match_scores = []\<rparr>)"

section \<open>The normalizer\<close>

text \<open>
  The dictionaries that \<^verbatim>\<open>parse_legistar_event_details\<close> builds have fixed keys, so
  they are records. A field that \<^verbatim>\<open>int()\<close> fills is an \<open>int\<close>; a field copied from
  the input is a \<open>pyval\<close>. The key \<^verbatim>\<open>decision\<close> of a minutes item is assigned on
  some paths only: \<open>None\<close> is a dictionary without that key, \<open>Some PyNone\<close> is the
  key with the value \<^verbatim>\<open>None\<close>.
\<close>

record attachment =
  att_name :: pyval
  att_uri :: pyval
  legistar_matter_attachment_id :: int

record person =
  full_name :: pyval
  email :: pyval
  phone :: pyval
  website :: pyval
  legistar_person_id :: pyval

record vote =
  vote_decision :: pyval
  legistar_event_item_vote_id :: int
  vote_person :: person

record minutes_item =
  mi_name :: pyval
  mi_matter :: pyval
  mi_index :: int
  legistar_event_item_id :: int
  mi_decision :: "pyval option"
  mi_votes :: "vote list"
  mi_attachments :: "attachment list"

record parsed_details =
  agenda_file_uri :: pyval
  body :: pyval
  event_datetime :: datetime
  minutes_items :: "minutes_item list"
  legistar_event_id :: int
  legistar_event_link :: pyval
  minutes_file_uri :: pyval

text \<open>
  Lines 186 to 188: the date is the part of \<^verbatim>\<open>EventDate\<close> before the first
  \<^verbatim>\<open>T\<close> (\<^verbatim>\<open>.split("T")[0]\<close>; only a string has that method), joined with
  \<^verbatim>\<open>EventTime\<close> and parsed.
\<close>

definition split_T_0 :: "string \<Rightarrow> string" where
  "split_T_0 s = takeWhile (\<lambda>c. c \<noteq> CHR ''T'') s"

definition parse_event_dt :: "pylib \<Rightarrow> dict \<Rightarrow> error + datetime" where
  "parse_event_dt L details =
     (case getitem (PyDict details) ''EventDate'' of
        Inl e \<Rightarrow> Inl e
      | Inr d \<Rightarrow>
          (case d of
             PyStr s \<Rightarrow>
               (case getitem (PyDict details) ''EventTime'' of
                  Inl e \<Rightarrow> Inl e
                | Inr t \<Rightarrow>
                    (case strptime L (split_T_0 s @ ''T'' @ py_format L t) of
                       None \<Rightarrow> Inl ValueError
                     | Some event_dt \<Rightarrow> Inr event_dt))
           | _ \<Rightarrow> Inl AttributeError))"

text \<open>Lines 194 to 197 and 200 to 203: the name and the matter of an item.\<close>

definition minutes_item_name :: "pyval \<Rightarrow> error + pyval" where
  "minutes_item_name item =
     (case getitem item ''EventItemMatterName'' of
        Inl e \<Rightarrow> Inl e
      | Inr matter_name \<Rightarrow>
          (if truthy matter_name then Inr matter_name else getitem item ''EventItemTitle''))"

definition minutes_item_matter :: "pyval \<Rightarrow> error + pyval" where
  "minutes_item_matter item =
     (case getitem item ''EventItemMatterName'' of
        Inl e \<Rightarrow> Inl e
      | Inr matter_name \<Rightarrow>
          (if truthy matter_name then Inr matter_name else getitem item ''EventItemMatterFile''))"

text \<open>
  Line 206, \<^verbatim>\<open>minutes_item_name not in ignore_minutes_items\<close>: the list holds
  strings, and only a string equals a string.
\<close>

definition ignored :: "pyval \<Rightarrow> string list \<Rightarrow> bool" where
  "ignored n ignore_minutes_items =
     (case n of PyStr s \<Rightarrow> s \<in> set ignore_minutes_items | _ \<Rightarrow> False)"

text \<open>Lines 209 to 216: the index of an item.\<close>

definition item_index :: "pylib \<Rightarrow> pyval \<Rightarrow> error + int" where
  "item_index L item =
     (case getitem item ''EventItemMinutesSequence'' of
        Inl e \<Rightarrow> Inl e
      | Inr index \<Rightarrow> (if truthy index then py_int L index else Inr (- 1)))"

text \<open>Lines 227 to 234: the attachments of an item.\<close>

definition parse_attachment :: "pylib \<Rightarrow> pyval \<Rightarrow> error + attachment" where
  "parse_attachment L matter_attachment =
     (case getitem matter_attachment ''MatterAttachmentName'' of
        Inl e \<Rightarrow> Inl e
      | Inr n \<Rightarrow>
          (case getitem matter_attachment ''MatterAttachmentHyperlink'' of
             Inl e \<Rightarrow> Inl e
           | Inr u \<Rightarrow>
               (case getitem matter_attachment ''MatterAttachmentId'' of
                  Inl e \<Rightarrow> Inl e
                | Inr i \<Rightarrow>
                    (case py_int L i of
                       Inl e \<Rightarrow> Inl e
                     | Inr k \<Rightarrow>
                         Inr \<lparr>att_name = n, att_uri = u,
                              legistar_matter_attachment_id = k\<rparr>))))"

fun parse_attachments :: "pylib \<Rightarrow> pyval list \<Rightarrow> error + attachment list" where
  "parse_attachments L [] = Inr []"
| "parse_attachments L (a # rest) =
     (case parse_attachment L a of
        Inl e \<Rightarrow> Inl e
      | Inr x \<Rightarrow>
          (case parse_attachments L rest of
             Inl e \<Rightarrow> Inl e
           | Inr xs \<Rightarrow> Inr (x # xs)))"

text \<open>
  Lines 243 to 249: the person of a vote. The identifier is copied as it is; the other
  identifiers of the output go through \<^verbatim>\<open>int()\<close>.
\<close>

definition parse_person :: "pyval \<Rightarrow> error + person" where
  "parse_person person_info =
     (case getitem person_info ''PersonFullName'' of
        Inl e \<Rightarrow> Inl e
      | Inr fn \<Rightarrow>
          (case getitem person_info ''PersonEmail'' of
             Inl e \<Rightarrow> Inl e
           | Inr em \<Rightarrow>
               (case getitem person_info ''PersonPhone'' of
                  Inl e \<Rightarrow> Inl e
                | Inr ph \<Rightarrow>
                    (case getitem person_info ''PersonWWW'' of
                       Inl e \<Rightarrow> Inl e
                     | Inr www \<Rightarrow>
                         (case getitem person_info ''PersonId'' of
                            Inl e \<Rightarrow> Inl e
                          | Inr pid \<Rightarrow>
                              Inr \<lparr>full_name = fn, email = em, phone = ph, website = www,
                                   legistar_person_id = pid\<rparr>)))))"

text \<open>Lines 240 to 250: one vote.\<close>

definition parse_vote :: "pylib \<Rightarrow> pyval \<Rightarrow> error + vote" where
  "parse_vote L vote_info =
     (case getitem vote_info ''VoteValueName'' of
        Inl e \<Rightarrow> Inl e
      | Inr d \<Rightarrow>
          (case getitem vote_info ''VoteId'' of
             Inl e \<Rightarrow> Inl e
           | Inr i \<Rightarrow>
               (case py_int L i of
                  Inl e \<Rightarrow> Inl e
                | Inr k \<Rightarrow>
                    (case getitem vote_info ''PersonInfo'' of
                       Inl e \<Rightarrow> Inl e
                     | Inr person_info \<Rightarrow>
                         (case parse_person person_info of
                            Inl e \<Rightarrow> Inl e
                          | Inr p \<Rightarrow>
                              Inr \<lparr>vote_decision = d, legistar_event_item_vote_id = k,
                                   vote_person = p\<rparr>)))))"

text \<open>
  Lines 239 to 251: the loop over the votes of an item whose passed flag is truthy, on
  the state \<open>(votes, decision)\<close>, where \<open>decision\<close> is the key \<^verbatim>\<open>decision\<close> of
  the minutes item under construction. The assignment of line 251 is in the body of the
  loop: every round appends a vote and stores the flag.
\<close>

fun parse_votes ::
  "pylib \<Rightarrow> pyval \<Rightarrow> pyval list \<Rightarrow> vote list \<times> pyval option \<Rightarrow> error + (vote list \<times> pyval option)"
where
  "parse_votes L flag [] st = Inr st"
| "parse_votes L flag (vote_info # rest) (votes, decision) =
     (case parse_vote L vote_info of
        Inl e \<Rightarrow> Inl e
      | Inr v \<Rightarrow> parse_votes L flag rest (votes @ [v], Some flag))"

text \<open>Lines 237 to 253: the votes and the decision of an item.\<close>

definition item_votes :: "pylib \<Rightarrow> pyval \<Rightarrow> error + (vote list \<times> pyval option)" where
  "item_votes L item =
     (case getitem item ''EventItemPassedFlagName'' of
        Inl e \<Rightarrow> Inl e
      | Inr flag \<Rightarrow>
          (if truthy flag then
             (case getitem item ''EventItemVoteInfo'' of
                Inl e \<Rightarrow> Inl e
              | Inr infos \<Rightarrow>
                  (case py_iter infos of
                     Inl e \<Rightarrow> Inl e
                   | Inr vote_infos \<Rightarrow> parse_votes L flag vote_infos ([], None)))
           else Inr ([], Some PyNone)))"

text \<open>Lines 227 to 234, with the lookup and the iteration of the attachment list.\<close>

definition item_attachments :: "pylib \<Rightarrow> pyval \<Rightarrow> error + attachment list" where
  "item_attachments L item =
     (case getitem item ''EventItemMatterAttachments'' of
        Inl e \<Rightarrow> Inl e
      | Inr atts \<Rightarrow>
          (case py_iter atts of
             Inl e \<Rightarrow> Inl e
           | Inr matter_attachments \<Rightarrow> parse_attachments L matter_attachments))"

text \<open>
  Lines 193 to 259: the body of the loop over the event items. The result is \<open>None\<close>
  for an item that the ignore list drops and the minutes item otherwise.
\<close>

definition parse_event_item ::
  "pylib \<Rightarrow> string list \<Rightarrow> pyval \<Rightarrow> error + minutes_item option"
where
  "parse_event_item L ignore_minutes_items item =
     (case minutes_item_name item of
        Inl e \<Rightarrow> Inl e
      | Inr n \<Rightarrow>
          (case minutes_item_matter item of
             Inl e \<Rightarrow> Inl e
           | Inr m \<Rightarrow>
               (if ignored n ignore_minutes_items then Inr None
                else
                  (case item_index L item of
                     Inl e \<Rightarrow> Inl e
                   | Inr index \<Rightarrow>
                       (case getitem item ''EventItemId'' of
                          Inl e \<Rightarrow> Inl e
                        | Inr i \<Rightarrow>
                            (case py_int L i of
                               Inl e \<Rightarrow> Inl e
                             | Inr k \<Rightarrow>
                                 (case item_attachments L item of
                                    Inl e \<Rightarrow> Inl e
                                  | Inr atts \<Rightarrow>
                                      (case item_votes L item of
                                         Inl e \<Rightarrow> Inl e
                                       | Inr (votes, decision) \<Rightarrow>
                                           Inr (Some
                                             \<lparr>mi_name = n, mi_matter = m, mi_index = index,
                                              legistar_event_item_id = k,
                                              mi_decision = decision, mi_votes = votes,
                                              mi_attachments = atts\<rparr>)))))))))"

text \<open>Lines 191 to 259: the loop, which appends the minutes items in the order of the input.\<close>

fun parse_event_items :: "pylib \<Rightarrow> string list \<Rightarrow> pyval list \<Rightarrow> error + minutes_item list" where
  "parse_event_items L ignore_minutes_items [] = Inr []"
| "parse_event_items L ignore_minutes_items (item # rest) =
     (case parse_event_item L ignore_minutes_items item of
        Inl e \<Rightarrow> Inl e
      | Inr r \<Rightarrow>
          (case parse_event_items L ignore_minutes_items rest of
             Inl e \<Rightarrow> Inl e
           | Inr ms \<Rightarrow> Inr (case r of None \<Rightarrow> ms | Some m \<Rightarrow> m # ms)))"

text \<open>
  Lines 185 to 275. \<^verbatim>\<open>sorted\<close> with a key is a stable sort, here \<open>sort_key\<close>; the
  keys are integers, so the comparison cannot fail.
\<close>

definition parse_legistar_event_details ::
  "pylib \<Rightarrow> dict \<Rightarrow> string list \<Rightarrow> error + parsed_details"
where
  "parse_legistar_event_details L legistar_event_details ignore_minutes_items =
     (case parse_event_dt L legistar_event_details of
        Inl e \<Rightarrow> Inl e
      | Inr event_dt \<Rightarrow>
     (case getitem (PyDict legistar_event_details) ''EventItems'' of
        Inl e \<Rightarrow> Inl e
      | Inr event_items \<Rightarrow>
     (case py_iter event_items of
        Inl e \<Rightarrow> Inl e
      | Inr items \<Rightarrow>
     (case parse_event_items L ignore_minutes_items items of
        Inl e \<Rightarrow> Inl e
      | Inr ms \<Rightarrow>
     (case getitem (PyDict legistar_event_details) ''EventAgendaFile'' of
        Inl e \<Rightarrow> Inl e
      | Inr agenda \<Rightarrow>
     (case getitem (PyDict legistar_event_details) ''EventBodyName'' of
        Inl e \<Rightarrow> Inl e
      | Inr body_name \<Rightarrow>
     (case getitem (PyDict legistar_event_details) ''EventId'' of
        Inl e \<Rightarrow> Inl e
      | Inr eid \<Rightarrow>
     (case py_int L eid of
        Inl e \<Rightarrow> Inl e
      | Inr k \<Rightarrow>
     (case getitem (PyDict legistar_event_details) ''EventInSiteURL'' of
        Inl e \<Rightarrow> Inl e
      | Inr link \<Rightarrow>
     (case getitem (PyDict legistar_event_details) ''EventMinutesFile'' of
        Inl e \<Rightarrow> Inl e
      | Inr minutes_file \<Rightarrow>
          Inr \<lparr>agenda_file_uri = agenda, body = body_name, event_datetime = event_dt,
               minutes_items = sort_key mi_index ms, legistar_event_id = k,
               legistar_event_link = link, minutes_file_uri = minutes_file\<rparr>))))))))))"

section \<open>A library instance and sample data\<close>

text \<open>
  The closed instances below run the model on concrete input, which needs the library
  parameters filled in. The stand-ins are small, and every sample input lies where they
  agree with the library: the integer parser reads a string of decimal digits,
  lower-casing covers the ASCII letters, and the timestamp parser knows one timestamp.
  The similarity is 0 when no name is provided or the event has no item, 100 when the
  names of the event are the names provided, and 0 otherwise; \<^verbatim>\<open>fuzz.token_set_ratio\<close>
  gives these values for an empty side (0), for equal names (100) and for names that
  share no character with the names provided (0), and the samples are of these three
  kinds.
\<close>

fun digits_value :: "string \<Rightarrow> nat \<Rightarrow> nat option" where
  "digits_value [] acc = Some acc"
| "digits_value (c # cs) acc =
     (if 48 \<le> (of_char c :: nat) \<and> (of_char c :: nat) \<le> 57
      then digits_value cs (10 * acc + (of_char c - 48)) else None)"

definition stub_int_of_str :: "string \<Rightarrow> int option" where
  "stub_int_of_str s = (if s = [] then None else map_option int (digits_value s 0))"

definition stub_lower :: "string \<Rightarrow> string" where
  "stub_lower s =
     map (\<lambda>c. case map_of (zip ''ABCDEFGHIJKLMNOPQRSTUVWXYZ'' ''abcdefghijklmnopqrstuvwxyz'') c of
                 None \<Rightarrow> c | Some l \<Rightarrow> l) s"

definition stub_ratio :: "string list \<Rightarrow> pyval list \<Rightarrow> int" where
  "stub_ratio provided names =
     (if provided = [] \<or> names = [] then 0
      else if names = map PyStr provided then 100
      else 0)"

definition stub_strptime :: "string \<Rightarrow> datetime option" where
  "stub_strptime s =
     (if s = ''2019-04-16T2:00 PM''
      then Some \<lparr>dt_year = 2019, dt_month = 4, dt_day = 16, dt_hour = 14, dt_minute = 0\<rparr>
      else None)"

definition stub_lib :: pylib where
  "stub_lib =
     \<lparr>token_set_ratio = stub_ratio, strptime = stub_strptime, str_lower = stub_lower,
      str_of = (\<lambda>v. ''None''), int_of_str = stub_int_of_str\<rparr>"

text \<open>A candidate event of the matcher: an identifier and items that carry a title only.\<close>

definition candidate :: "pyval \<Rightarrow> string list \<Rightarrow> dict" where
  "candidate i titles =
     [(''EventId'', i),
      (''EventItems'',
       PyList (map (\<lambda>t. PyDict [(''EventItemMatterName'', PyNone),
                                 (''EventItemTitle'', PyStr t)]) titles))]"

text \<open>
  A raw event item: title, minutes sequence, passed flag and votes; no matter name, no
  matter file, no attachments.
\<close>

definition raw_item :: "int \<Rightarrow> string \<Rightarrow> pyval \<Rightarrow> pyval \<Rightarrow> pyval list \<Rightarrow> pyval" where
  "raw_item i title minutes_sequence passed_flag vote_infos =
     PyDict [(''EventItemId'', PyInt i),
             (''EventItemMatterName'', PyNone),
             (''EventItemTitle'', PyStr title),
             (''EventItemMatterFile'', PyNone),
             (''EventItemMinutesSequence'', minutes_sequence),
             (''EventItemPassedFlagName'', passed_flag),
             (''EventItemMatterAttachments'', PyList []),
             (''EventItemVoteInfo'', PyList vote_infos)]"

definition raw_vote :: "pyval \<Rightarrow> pyval \<Rightarrow> pyval" where
  "raw_vote vote_id person_id =
     PyDict [(''VoteId'', vote_id),
             (''VoteValueName'', PyStr ''In Favor''),
             (''PersonInfo'',
              PyDict [(''PersonId'', person_id),
                      (''PersonFullName'', PyStr ''A. Member''),
                      (''PersonEmail'', PyNone),
                      (''PersonPhone'', PyNone),
                      (''PersonWWW'', PyNone)])]"

definition raw_event :: "pyval list \<Rightarrow> dict" where
  "raw_event items =
     [(''EventId'', PyStr ''4053''),
      (''EventDate'', PyStr ''2019-04-16T00:00:00''),
      (''EventTime'', PyStr ''2:00 PM''),
      (''EventAgendaFile'', PyNone),
      (''EventMinutesFile'', PyNone),
      (''EventBodyName'', PyStr ''City Council''),
      (''EventInSiteURL'', PyNone),
      (''EventItems'', PyList items)]"

section \<open>Properties of the matcher\<close>

lemma store_keys: "hash_key ` fst ` set (store d k v) = insert (hash_key k) (hash_key ` fst ` set d)"
  by (induction d k v rule: store.induct) (auto split: if_splits)

lemma store_values: "snd ` set (store d k v) \<subseteq> insert v (snd ` set d)"
  by (induction d k v rule: store.induct) (auto split: if_splits)

lemma score_of_store:
  "score_of (store d k v) k' = (if hash_key k = hash_key k' then Some v else score_of d k')"
  by (induction d) auto

lemma score_of_Some_value: "score_of d k = Some v \<Longrightarrow> v \<in> snd ` set d"
  by (induction d) (auto split: if_splits)

lemma score_of_None_iff: "score_of d k = None \<longleftrightarrow> hash_key k \<notin> hash_key ` fst ` set d"
  by (induction d k rule: score_of.induct) (auto split: if_splits)

lemma store_fresh: "hash_key k \<notin> hash_key ` fst ` set d \<Longrightarrow> store d k v = d @ [(k, v)]"
  by (induction d) auto

lemma rank_events_no_better:
  "rank_events L p evs (m, sel, scs) = Inr (m', sel', scs') \<Longrightarrow>
   (\<forall>e\<in>set evs. \<forall>s. match_score L p e = Inr s \<longrightarrow> s \<le> m) \<Longrightarrow> m' = m \<and> sel' = sel"
  by (induction evs arbitrary: scs) (auto split: sum.splits if_splits)

lemma rank_events_scores:
  "rank_events L p evs st = Inr st' \<Longrightarrow> \<exists>ss. map (match_score L p) evs = map Inr ss"
proof (induction evs arbitrary: st)
  case Nil
  then show ?case by simp
next
  case (Cons e evs)
  obtain m sel scs where st: "st = (m, sel, scs)" by (cases st) auto
  from Cons.prems obtain s st2 where s: "match_score L p e = Inr s"
    and r: "rank_events L p evs st2 = Inr st'"
    unfolding st by (auto split: sum.splits if_splits)
  from Cons.IH[OF r] obtain ss where "map (match_score L p) evs = map Inr ss" ..
  with s have "map (match_score L p) (e # evs) = map Inr (s # ss)" by simp
  then show ?case by blast
qed

lemma rank_events_ids:
  "rank_events L p evs st = Inr st' \<Longrightarrow>
   \<exists>ids. map (\<lambda>e. getitem (PyDict e) ''EventId'') evs = map Inr ids \<and> None \<notin> hash_key ` set ids"
proof (induction evs arbitrary: st)
  case Nil
  then show ?case by simp
next
  case (Cons e evs)
  obtain m sel scs where st: "st = (m, sel, scs)" by (cases st) auto
  from Cons.prems obtain eid st2 where s: "getitem (PyDict e) ''EventId'' = Inr eid"
    and h: "hash_key eid \<noteq> None"
    and r: "rank_events L p evs st2 = Inr st'"
    unfolding st by (auto simp: setitem_def split: sum.splits if_splits option.splits)
  from Cons.IH[OF r] obtain ids where "map (\<lambda>e. getitem (PyDict e) ''EventId'') evs = map Inr ids"
     "None \<notin> hash_key ` set ids" by blast
  with s h have "map (\<lambda>e. getitem (PyDict e) ''EventId'') (e # evs) = map Inr (eid # ids) \<and> None \<notin> hash_key ` set (eid # ids)"
    by auto
  then show ?case by blast
qed

lemma rank_events_select:
  "rank_events L p evs (m, sel, scs) = Inr (m', sel', scs') \<Longrightarrow>
   map (match_score L p) evs = map Inr ss \<Longrightarrow> \<exists>s\<in>set ss. m < s \<Longrightarrow>
   \<exists>i<length evs. sel' = PyDict (evs ! i) \<and> m' = ss ! i \<and> m < ss ! i \<and>
      (\<forall>j<i. ss ! j < ss ! i) \<and> (\<forall>j<length evs. ss ! j \<le> ss ! i)"
proof (induction evs arbitrary: m sel scs ss)
  case Nil
  then show ?case by simp
next
  case (Cons e evs)
  from Cons.prems(2) obtain s ss' where ss: "ss = s # ss'" and s: "match_score L p e = Inr s"
    and ss': "map (match_score L p) evs = map Inr ss'"
    by (cases ss) auto
  have len: "length ss' = length evs" using ss' by (metis length_map)
  from Cons.prems(1) s obtain scs2 where
    r: "rank_events L p evs (if m < s then (s, PyDict e, scs2) else (m, sel, scs2)) = Inr (m', sel', scs')"
    by (auto split: sum.splits if_splits)
  show ?case
  proof (cases "m < s")
    case True
    with r have r1: "rank_events L p evs (s, PyDict e, scs2) = Inr (m', sel', scs')" by simp
    show ?thesis
    proof (cases "\<exists>t\<in>set ss'. s < t")
      case True
      from Cons.IH[OF r1 ss' True] obtain i where i: "i < length evs" "sel' = PyDict (evs ! i)"
        "m' = ss' ! i" "s < ss' ! i" "\<forall>j<i. ss' ! j < ss' ! i" "\<forall>j<length evs. ss' ! j \<le> ss' ! i"
        by blast
      have "Suc i < length (e # evs) \<and> sel' = PyDict ((e # evs) ! Suc i) \<and> m' = ss ! Suc i \<and> m < ss ! Suc i \<and>
          (\<forall>j<Suc i. ss ! j < ss ! Suc i) \<and> (\<forall>j<length (e # evs). ss ! j \<le> ss ! Suc i)"
        using i \<open>m < s\<close> unfolding ss by (auto simp: nth_Cons split: nat.splits)
      then show ?thesis by blast
    next
      case False
      then have le: "\<forall>t\<in>set ss'. t \<le> s" by auto
      have "\<forall>e'\<in>set evs. \<forall>t. match_score L p e' = Inr t \<longrightarrow> t \<le> s"
      proof (intro ballI allI impI)
        fix e' t assume "e' \<in> set evs" "match_score L p e' = Inr t"
        then have "Inr t \<in> set (map (match_score L p) evs)" by force
        then have "t \<in> set ss'" unfolding ss' by auto
        with le show "t \<le> s" by blast
      qed
      from rank_events_no_better[OF r1 this] have "m' = s" "sel' = PyDict e" by auto
      then have "0 < length (e # evs) \<and> sel' = PyDict ((e # evs) ! 0) \<and> m' = ss ! 0 \<and> m < ss ! 0 \<and>
          (\<forall>j<0. ss ! j < ss ! 0) \<and> (\<forall>j<length (e # evs). ss ! j \<le> ss ! 0)"
        using le \<open>m < s\<close> len unfolding ss by (auto simp: nth_Cons split: nat.splits)
      then show ?thesis by blast
    qed
  next
    case False
    with r have r1: "rank_events L p evs (m, sel, scs2) = Inr (m', sel', scs')" by simp
    from Cons.prems(3) False have ex: "\<exists>t\<in>set ss'. m < t" unfolding ss by auto
    from Cons.IH[OF r1 ss' ex] obtain i where i: "i < length evs" "sel' = PyDict (evs ! i)"
        "m' = ss' ! i" "m < ss' ! i" "\<forall>j<i. ss' ! j < ss' ! i" "\<forall>j<length evs. ss' ! j \<le> ss' ! i"
      by blast
    have "Suc i < length (e # evs) \<and> sel' = PyDict ((e # evs) ! Suc i) \<and> m' = ss ! Suc i \<and> m < ss ! Suc i \<and>
          (\<forall>j<Suc i. ss ! j < ss ! Suc i) \<and> (\<forall>j<length (e # evs). ss ! j \<le> ss ! Suc i)"
      using i False unfolding ss by (auto simp: nth_Cons split: nat.splits)
    then show ?thesis by blast
  qed
qed


lemma rank_events_keys:
  "rank_events L p evs (m, sel, scs) = Inr (m', sel', scs') \<Longrightarrow>
   map (\<lambda>e. getitem (PyDict e) ''EventId'') evs = map Inr ids \<Longrightarrow>
   hash_key ` fst ` set scs' = hash_key ` fst ` set scs \<union> hash_key ` set ids"
proof (induction evs arbitrary: m sel scs ids)
  case Nil
  then show ?case by simp
next
  case (Cons e evs)
  from Cons.prems(2) obtain eid ids' where ids: "ids = eid # ids'"
    and eid: "getitem (PyDict e) ''EventId'' = Inr eid"
    and ids': "map (\<lambda>e. getitem (PyDict e) ''EventId'') evs = map Inr ids'"
    by (cases ids) auto
  from Cons.prems(1) eid obtain m2 sel2 s where
    r: "rank_events L p evs (m2, sel2, store scs eid s) = Inr (m', sel', scs')"
    by (auto simp: setitem_def split: sum.splits if_splits option.splits)
  from Cons.IH[OF r ids'] show ?case
    unfolding ids by (simp add: store_keys)
qed

lemma rank_events_values:
  "rank_events L p evs (m, sel, scs) = Inr (m', sel', scs') \<Longrightarrow>
   map (match_score L p) evs = map Inr ss \<Longrightarrow>
   snd ` set scs' \<subseteq> snd ` set scs \<union> set ss"
proof (induction evs arbitrary: m sel scs ss)
  case Nil
  then show ?case by simp
next
  case (Cons e evs)
  from Cons.prems(2) obtain s ss' where ss: "ss = s # ss'" and s: "match_score L p e = Inr s"
    and ss': "map (match_score L p) evs = map Inr ss'"
    by (cases ss) auto
  from Cons.prems(1) s obtain m2 sel2 eid where
    r: "rank_events L p evs (m2, sel2, store scs eid s) = Inr (m', sel', scs')"
    by (auto simp: setitem_def split: sum.splits if_splits option.splits)
  from Cons.IH[OF r ss'] store_values[of scs eid s] show ?case
    unfolding ss by auto
qed

lemma rank_events_distinct:
  "rank_events L p evs (m, sel, scs) = Inr (m', sel', scs') \<Longrightarrow>
   map (\<lambda>e. getitem (PyDict e) ''EventId'') evs = map Inr ids \<Longrightarrow>
   map (match_score L p) evs = map Inr ss \<Longrightarrow>
   distinct (map hash_key (map fst scs @ ids)) \<Longrightarrow>
   scs' = scs @ zip ids ss"
proof (induction evs arbitrary: m sel scs ids ss)
  case Nil
  then show ?case by simp
next
  case (Cons e evs)
  from Cons.prems(2) obtain eid ids' where ids: "ids = eid # ids'"
    and eid: "getitem (PyDict e) ''EventId'' = Inr eid"
    and ids': "map (\<lambda>e. getitem (PyDict e) ''EventId'') evs = map Inr ids'"
    by (cases ids) auto
  from Cons.prems(3) obtain s ss' where ss: "ss = s # ss'" and s: "match_score L p e = Inr s"
    and ss': "map (match_score L p) evs = map Inr ss'"
    by (cases ss) auto
  from Cons.prems(1) eid s obtain m2 sel2 where
    r: "rank_events L p evs (m2, sel2, store scs eid s) = Inr (m', sel', scs')"
    by (auto simp: setitem_def split: sum.splits if_splits option.splits)
  from Cons.prems(4) have fresh: "hash_key eid \<notin> hash_key ` fst ` set scs"
    unfolding ids by auto
  then have st: "store scs eid s = scs @ [(eid, s)]" by (rule store_fresh)
  from Cons.prems(4) have "distinct (map hash_key (map fst (scs @ [(eid, s)]) @ ids'))"
    unfolding ids by auto
  from Cons.IH[OF r[unfolded st] ids' ss' this] show ?case
    unfolding ids ss by simp
qed

lemma matcher_many:
  assumes "2 \<le> length evs"
    and "get_matching_legistar_event_by_minutes_match L provided evs = Inr r"
  shows "\<exists>m. rank_events L (map (str_lower L) provided) evs (0, PyNone, []) =
           Inr (m, selected_event r, match_scores r)"
  using assms unfolding get_matching_legistar_event_by_minutes_match_def
  by (auto split: sum.splits if_splits prod.splits)

text \<open>
  C9. With exactly one candidate the matcher returns that candidate as the selected
  event and a score map with one entry, the candidate's identifier mapped to 100; the
  similarity function is not consulted, so the result is the same for every library and
  every list of names provided.
\<close>

theorem single_candidate:
  assumes "get_matching_legistar_event_by_minutes_match L provided [event] = Inr r"
  shows "selected_event r = PyDict event \<and>
         (\<exists>eid. getitem (PyDict event) ''EventId'' = Inr eid \<and> match_scores r = [(eid, 100)]) \<and>
         (\<forall>L' provided'. get_matching_legistar_event_by_minutes_match L' provided' [event] = Inr r)"
  using assms unfolding get_matching_legistar_event_by_minutes_match_def
  by (auto simp: setitem_def split: sum.splits option.splits)

theorem single_candidate_witness:
  "get_matching_legistar_event_by_minutes_match stub_lib ['' budget amendment '']
       [candidate (PyInt 1) [''Budget Amendment'']]
     = Inr \<lparr>selected_event = PyDict (candidate (PyInt 1) [''Budget Amendment'']),
            match_scores = [(PyInt 1, 100)]\<rparr> \<and>
   get_matching_legistar_event_by_minutes_match
       (stub_lib\<lparr>token_set_ratio := \<lambda>provided names. 0\<rparr>) []
       [candidate (PyInt 1) [''Budget Amendment'']]
     = Inr \<lparr>selected_event = PyDict (candidate (PyInt 1) [''Budget Amendment'']),
            match_scores = [(PyInt 1, 100)]\<rparr>"
proof -
  have h: "get_matching_legistar_event_by_minutes_match stub_lib ['' budget amendment '']
       [candidate (PyInt 1) [''Budget Amendment'']]
     = Inr \<lparr>selected_event = PyDict (candidate (PyInt 1) [''Budget Amendment'']),
            match_scores = [(PyInt 1, 100)]\<rparr>"
    by (simp add: get_matching_legistar_event_by_minutes_match_def candidate_def setitem_def)
  from single_candidate[OF h]
  have "get_matching_legistar_event_by_minutes_match
       (stub_lib\<lparr>token_set_ratio := \<lambda>provided names. 0\<rparr>) []
       [candidate (PyInt 1) [''Budget Amendment'']]
     = Inr \<lparr>selected_event = PyDict (candidate (PyInt 1) [''Budget Amendment'']),
            match_scores = [(PyInt 1, 100)]\<rparr>"
    by blast
  with h show ?thesis ..
qed

text \<open>
  C10. With two or more candidates whose similarity scores are all 0, the matcher selects
  no event (\<^verbatim>\<open>None\<close>), and the score map still has an entry, with the score 0, under
  the identifier of every candidate.
\<close>

theorem all_scores_zero:
  assumes "2 \<le> length evs"
    and "get_matching_legistar_event_by_minutes_match L provided evs = Inr r"
    and "\<forall>e\<in>set evs. \<forall>s. match_score L (map (str_lower L) provided) e = Inr s \<longrightarrow> s = 0"
  shows "selected_event r = PyNone \<and>
         (\<forall>e\<in>set evs. \<exists>eid. getitem (PyDict e) ''EventId'' = Inr eid \<and>
                                score_of (match_scores r) eid = Some 0)"
proof -
  let ?p = "map (str_lower L) provided"
  from matcher_many[OF assms(1,2)] obtain m where
    r: "rank_events L ?p evs (0, PyNone, []) = Inr (m, selected_event r, match_scores r)" ..
  from assms(3) have "\<forall>e\<in>set evs. \<forall>s. match_score L ?p e = Inr s \<longrightarrow> s \<le> 0" by auto
  from rank_events_no_better[OF r this] have sel: "selected_event r = PyNone" by simp
  from rank_events_scores[OF r] obtain ss where ss: "map (match_score L ?p) evs = map Inr ss" ..
  from rank_events_ids[OF r] obtain ids where
    ids: "map (\<lambda>e. getitem (PyDict e) ''EventId'') evs = map Inr ids" by blast
  have zero: "set ss \<subseteq> {0}"
  proof
    fix s assume "s \<in> set ss"
    then have "Inr s \<in> set (map (match_score L ?p) evs)" unfolding ss by simp
    then obtain e where "e \<in> set evs" "match_score L ?p e = Inr s" by auto
    with assms(3) show "s \<in> {0}" by auto
  qed
  have "\<exists>eid. getitem (PyDict e) ''EventId'' = Inr eid \<and> score_of (match_scores r) eid = Some 0"
    if e: "e \<in> set evs" for e
  proof -
    from e have "getitem (PyDict e) ''EventId'' \<in> set (map Inr ids)"
      unfolding ids[symmetric] by simp
    then obtain eid where eid: "getitem (PyDict e) ''EventId'' = Inr eid" "eid \<in> set ids" by auto
    from rank_events_keys[OF r ids] eid(2)
    have "hash_key eid \<in> hash_key ` fst ` set (match_scores r)" by auto
    then obtain v where v: "score_of (match_scores r) eid = Some v"
      using score_of_None_iff[of "match_scores r" eid] by (cases "score_of (match_scores r) eid") auto
    from score_of_Some_value[OF v] rank_events_values[OF r ss] zero have "v = 0" by auto
    with eid(1) v show ?thesis by simp
  qed
  with sel show ?thesis by blast
qed

theorem all_scores_zero_witness:
  "get_matching_legistar_event_by_minutes_match stub_lib []
       [candidate (PyInt 1) [''Roll Call''], candidate (PyInt 2) [''Budget'']]
     = Inr \<lparr>selected_event = PyNone, match_scores = [(PyInt 1, 0), (PyInt 2, 0)]\<rparr> \<and>
   selected_event \<lparr>selected_event = PyNone, match_scores = [(PyInt 1, 0), (PyInt 2, 0)]\<rparr> = PyNone \<and>
   score_of [(PyInt 1, 0), (PyInt 2, 0)] (PyInt 2) = Some 0"
proof -
  let ?evs = "[candidate (PyInt 1) [''Roll Call''], candidate (PyInt 2) [''Budget'']]"
  let ?r = "\<lparr>selected_event = PyNone, match_scores = [(PyInt 1, 0), (PyInt 2, 0)]\<rparr>"
  have h1: "2 \<le> length ?evs" by simp
  have h2: "get_matching_legistar_event_by_minutes_match stub_lib [] ?evs = Inr ?r"
    by (simp add: get_matching_legistar_event_by_minutes_match_def stub_lib_def stub_ratio_def
        candidate_def match_score_def setitem_def)
  have h3: "\<forall>e\<in>set ?evs. \<forall>s. match_score stub_lib (map (str_lower stub_lib) []) e = Inr s \<longrightarrow> s = 0"
    by (simp add: stub_lib_def stub_ratio_def candidate_def match_score_def)
  from all_scores_zero[OF h1 h2 h3] h2 show ?thesis by simp
qed

text \<open>
  C4. As stated, the claim fails: the selected event starts as \<^verbatim>\<open>None\<close> and the
  maximum as 0, and only a strictly greater score replaces them, so when the maximum
  score of the candidates is 0 no candidate is selected, although the first one achieves
  the maximum. With no name provided every candidate scores 0.
\<close>

theorem first_maximum_counterexample:
  "get_matching_legistar_event_by_minutes_match stub_lib []
       [candidate (PyInt 1) [''roll call''], candidate (PyInt 2) [''budget''],
        candidate (PyInt 3) [''adjournment'']]
     = Inr \<lparr>selected_event = PyNone,
            match_scores = [(PyInt 1, 0), (PyInt 2, 0), (PyInt 3, 0)]\<rparr> \<and>
   match_score stub_lib [] (candidate (PyInt 1) [''roll call'']) = Inr 0 \<and>
   match_score stub_lib [] (candidate (PyInt 2) [''budget'']) = Inr 0 \<and>
   match_score stub_lib [] (candidate (PyInt 3) [''adjournment'']) = Inr 0 \<and>
   PyNone \<noteq> PyDict (candidate (PyInt 1) [''roll call''])"
  by (simp add: get_matching_legistar_event_by_minutes_match_def stub_lib_def stub_ratio_def
      candidate_def match_score_def setitem_def)

text \<open>
  C4, amended. With two or more candidates, when some candidate's score is greater than
  0, the selected event is the first candidate in input order that achieves the maximum
  score: every score is at most its score and every earlier score is strictly smaller,
  so a later candidate with an equal score does not replace it. When no score is greater
  than 0, the selected event is \<^verbatim>\<open>None\<close>.
\<close>

theorem first_maximum_selected:
  assumes "2 \<le> length evs"
    and "get_matching_legistar_event_by_minutes_match L provided evs = Inr r"
  shows "\<exists>ss. map (match_score L (map (str_lower L) provided)) evs = map Inr ss \<and>
           (if \<exists>s\<in>set ss. 0 < s
            then \<exists>i<length evs. selected_event r = PyDict (evs ! i) \<and>
                   (\<forall>j<length evs. ss ! j \<le> ss ! i) \<and> (\<forall>j<i. ss ! j < ss ! i)
            else selected_event r = PyNone)"
proof -
  let ?p = "map (str_lower L) provided"
  from matcher_many[OF assms] obtain m where
    r: "rank_events L ?p evs (0, PyNone, []) = Inr (m, selected_event r, match_scores r)" ..
  from rank_events_scores[OF r] obtain ss where ss: "map (match_score L ?p) evs = map Inr ss" ..
  show ?thesis
  proof (cases "\<exists>s\<in>set ss. 0 < s")
    case True
    from rank_events_select[OF r ss True] obtain i where i: "i < length evs"
      "selected_event r = PyDict (evs ! i)" "\<forall>j<length evs. ss ! j \<le> ss ! i"
      "\<forall>j<i. ss ! j < ss ! i"
      by blast
    have "\<exists>i<length evs. selected_event r = PyDict (evs ! i) \<and>
            (\<forall>j<length evs. ss ! j \<le> ss ! i) \<and> (\<forall>j<i. ss ! j < ss ! i)"
      by (rule exI[of _ i]) (use i in simp)
    then have "if \<exists>s\<in>set ss. 0 < s
            then \<exists>i<length evs. selected_event r = PyDict (evs ! i) \<and>
                   (\<forall>j<length evs. ss ! j \<le> ss ! i) \<and> (\<forall>j<i. ss ! j < ss ! i)
            else selected_event r = PyNone"
      unfolding if_P[OF True] .
    with ss show ?thesis by (intro exI[of _ ss] conjI)
  next
    case False
    have "\<forall>e\<in>set evs. \<forall>s. match_score L ?p e = Inr s \<longrightarrow> s \<le> 0"
    proof (intro ballI allI impI)
      fix e s assume "e \<in> set evs" "match_score L ?p e = Inr s"
      then have "Inr s \<in> set (map (match_score L ?p) evs)" by force
      then have "s \<in> set ss" unfolding ss by auto
      with False show "s \<le> 0" by force
    qed
    from rank_events_no_better[OF r this] have "selected_event r = PyNone" by simp
    then have "if \<exists>s\<in>set ss. 0 < s
            then \<exists>i<length evs. selected_event r = PyDict (evs ! i) \<and>
                   (\<forall>j<length evs. ss ! j \<le> ss ! i) \<and> (\<forall>j<i. ss ! j < ss ! i)
            else selected_event r = PyNone"
      unfolding if_not_P[OF False] .
    with ss show ?thesis by (intro exI[of _ ss] conjI)
  qed
qed

theorem first_maximum_selected_witness:
  "get_matching_legistar_event_by_minutes_match stub_lib [''Budget'']
       [candidate (PyInt 1) [''roll call''], candidate (PyInt 2) [''budget''],
        candidate (PyInt 3) [''budget'']]
     = Inr \<lparr>selected_event = PyDict (candidate (PyInt 2) [''budget'']),
            match_scores = [(PyInt 1, 0), (PyInt 2, 100), (PyInt 3, 100)]\<rparr> \<and>
   map (match_score stub_lib (map (str_lower stub_lib) [''Budget'']))
       [candidate (PyInt 1) [''roll call''], candidate (PyInt 2) [''budget''],
        candidate (PyInt 3) [''budget'']]
     = map Inr [0, 100, 100] \<and>
   (\<exists>i<3. PyDict (candidate (PyInt 2) [''budget'']) =
             PyDict ([candidate (PyInt 1) [''roll call''], candidate (PyInt 2) [''budget''],
                      candidate (PyInt 3) [''budget'']] ! i) \<and>
          (\<forall>j<3. [0, 100, 100 :: int] ! j \<le> [0, 100, 100] ! i) \<and>
          (\<forall>j<i. [0, 100, 100 :: int] ! j < [0, 100, 100] ! i))"
proof -
  let ?evs = "[candidate (PyInt 1) [''roll call''], candidate (PyInt 2) [''budget''],
        candidate (PyInt 3) [''budget'']]"
  let ?r = "\<lparr>selected_event = PyDict (candidate (PyInt 2) [''budget'']),
            match_scores = [(PyInt 1, 0), (PyInt 2, 100), (PyInt 3, 100)]\<rparr>"
  let ?m = "match_score stub_lib (map (str_lower stub_lib) [''Budget''])"
  have h1: "2 \<le> length ?evs" by simp
  have len3: "length ?evs = 3" by simp
  have selr: "selected_event ?r = PyDict (candidate (PyInt 2) [''budget''])" by simp
  have h2: "get_matching_legistar_event_by_minutes_match stub_lib [''Budget''] ?evs = Inr ?r"
    by (simp add: get_matching_legistar_event_by_minutes_match_def stub_lib_def stub_ratio_def
        stub_lower_def candidate_def match_score_def setitem_def)
  have h3: "map ?m ?evs = map Inr [0, 100, 100]"
    by (simp add: stub_lib_def stub_ratio_def stub_lower_def candidate_def match_score_def)
  from first_maximum_selected[OF h1 h2] obtain ss where
    ss: "map ?m ?evs = map Inr ss"
    and sel: "if \<exists>s\<in>set ss. 0 < s
            then \<exists>i<length ?evs. selected_event ?r = PyDict (?evs ! i) \<and>
                   (\<forall>j<length ?evs. ss ! j \<le> ss ! i) \<and> (\<forall>j<i. ss ! j < ss ! i)
            else selected_event ?r = PyNone"
    by blast
  from ss have "map Inr ss = (map Inr [0, 100, 100] :: (error + int) list)"
    unfolding h3 by simp
  then have ss_eq: "ss = [0, 100, 100]" by (auto simp: map_eq_Cons_conv)
  have pos: "\<exists>s\<in>set ss. 0 < s" unfolding ss_eq by simp
  from sel pos have "\<exists>i<length ?evs. selected_event ?r = PyDict (?evs ! i) \<and>
                   (\<forall>j<length ?evs. ss ! j \<le> ss ! i) \<and> (\<forall>j<i. ss ! j < ss ! i)"
    by (simp only: if_True)
  then have "\<exists>i<3. PyDict (candidate (PyInt 2) [''budget'']) = PyDict (?evs ! i) \<and>
          (\<forall>j<3. [0, 100, 100 :: int] ! j \<le> [0, 100, 100] ! i) \<and>
          (\<forall>j<i. [0, 100, 100 :: int] ! j < [0, 100, 100] ! i)"
    unfolding ss_eq len3 selr .
  with h2 h3 show ?thesis by (intro conjI)
qed

lemma store_distinct:
  "distinct (map hash_key (map fst d)) \<Longrightarrow> distinct (map hash_key (map fst (store d k v)))"
proof (induction d k v rule: store.induct)
  case (1 k v)
  then show ?case by simp
next
  case (2 k' v' rest k v)
  show ?case
  proof (cases "hash_key k' = hash_key k")
    case True
    with "2.prems" show ?thesis by simp
  next
    case False
    with "2.prems" "2.IH" have d: "distinct (map hash_key (map fst (store rest k v)))" by simp
    from "2.prems" have "hash_key k' \<notin> hash_key ` fst ` set rest" by (auto simp: image_image)
    with False have "hash_key k' \<notin> hash_key ` fst ` set (store rest k v)"
      by (simp add: store_keys)
    with d False show ?thesis by (auto simp: image_image)
  qed
qed

lemma rank_events_distinct_keys:
  "rank_events L p evs (m, sel, scs) = Inr (m', sel', scs') \<Longrightarrow>
   distinct (map hash_key (map fst scs)) \<Longrightarrow> distinct (map hash_key (map fst scs'))"
proof (induction evs arbitrary: m sel scs)
  case Nil
  then show ?case by simp
next
  case (Cons e evs)
  from Cons.prems(1) obtain m2 sel2 eid s where
    r: "rank_events L p evs (m2, sel2, store scs eid s) = Inr (m', sel', scs')"
    by (auto simp: setitem_def split: sum.splits if_splits option.splits)
  from Cons.IH[OF r store_distinct[OF Cons.prems(2)]] show ?case .
qed

text \<open>
  C5. As stated, the claim fails: the score map is a dictionary keyed by
  \<^verbatim>\<open>EventId\<close>, so two candidates with the same identifier share one entry, and the
  map has fewer entries than there are candidates.
\<close>

theorem scores_per_candidate_counterexample:
  "get_matching_legistar_event_by_minutes_match stub_lib [''Budget'']
       [candidate (PyInt 7) [''budget''], candidate (PyInt 7) [''roll call'']]
     = Inr \<lparr>selected_event = PyDict (candidate (PyInt 7) [''budget'']),
            match_scores = [(PyInt 7, 0)]\<rparr> \<and>
   length [(PyInt 7, 0 :: int)] \<noteq>
     length [candidate (PyInt 7) [''budget''], candidate (PyInt 7) [''roll call'']]"
  by (simp add: get_matching_legistar_event_by_minutes_match_def stub_lib_def stub_ratio_def
      stub_lower_def candidate_def match_score_def setitem_def)

text \<open>
  C5, amended. For a non-empty candidate list the keys of the score map are the
  candidates' identifiers: every identifier is a key, every key is an identifier, and no
  key occurs twice. When the identifiers of the candidates are pairwise different as
  dictionary keys, the map has exactly one entry per candidate, in input order, so it
  has as many entries as there are candidates.
\<close>

theorem scores_per_candidate:
  assumes "evs \<noteq> []"
    and "get_matching_legistar_event_by_minutes_match L provided evs = Inr r"
  shows "\<exists>ids. map (\<lambda>e. getitem (PyDict e) ''EventId'') evs = map Inr ids \<and>
           hash_key ` fst ` set (match_scores r) = hash_key ` set ids \<and>
           distinct (map hash_key (map fst (match_scores r))) \<and>
           (distinct (map hash_key ids) \<longrightarrow>
              map fst (match_scores r) = ids \<and> length (match_scores r) = length evs)"
proof (cases "length evs = 1")
  case True
  then obtain e where evs: "evs = [e]" by (cases evs) auto
  from assms(2) obtain eid where "getitem (PyDict e) ''EventId'' = Inr eid"
    "match_scores r = [(eid, 100)]"
    unfolding evs get_matching_legistar_event_by_minutes_match_def
    by (auto simp: setitem_def split: sum.splits option.splits)
  then have "map (\<lambda>e. getitem (PyDict e) ''EventId'') evs = map Inr [eid] \<and>
           hash_key ` fst ` set (match_scores r) = hash_key ` set [eid] \<and>
           distinct (map hash_key (map fst (match_scores r))) \<and>
           (distinct (map hash_key [eid]) \<longrightarrow>
              map fst (match_scores r) = [eid] \<and> length (match_scores r) = length evs)"
    unfolding evs by simp
  then show ?thesis by (rule exI[of _ "[eid]"])
next
  case False
  with assms(1) have len: "2 \<le> length evs" by (cases evs) (auto simp: Suc_le_eq)
  let ?p = "map (str_lower L) provided"
  from matcher_many[OF len assms(2)] obtain m where
    r: "rank_events L ?p evs (0, PyNone, []) = Inr (m, selected_event r, match_scores r)" ..
  from rank_events_scores[OF r] obtain ss where ss: "map (match_score L ?p) evs = map Inr ss" ..
  from rank_events_ids[OF r] obtain ids where
    ids: "map (\<lambda>e. getitem (PyDict e) ''EventId'') evs = map Inr ids" by blast
  have l1: "length ids = length evs" using ids by (metis length_map)
  have l2: "length ss = length evs" using ss by (metis length_map)
  from rank_events_keys[OF r ids]
  have keys: "hash_key ` fst ` set (match_scores r) = hash_key ` set ids" by simp
  from rank_events_distinct_keys[OF r] have dk: "distinct (map hash_key (map fst (match_scores r)))"
    by simp
  have "map fst (match_scores r) = ids \<and> length (match_scores r) = length evs"
    if d: "distinct (map hash_key ids)"
  proof -
    from rank_events_distinct[OF r ids ss] d have "match_scores r = zip ids ss" by simp
    with l1 l2 show ?thesis by simp
  qed
  with ids keys dk show ?thesis by blast
qed

theorem scores_per_candidate_witness:
  "get_matching_legistar_event_by_minutes_match stub_lib [''Budget'']
       [candidate (PyInt 7) [''budget''], candidate (PyStr ''7'') [''roll call''],
        candidate (PyInt 9) []]
     = Inr \<lparr>selected_event = PyDict (candidate (PyInt 7) [''budget'']),
            match_scores = [(PyInt 7, 100), (PyStr ''7'', 0), (PyInt 9, 0)]\<rparr> \<and>
   map (\<lambda>e. getitem (PyDict e) ''EventId'')
       [candidate (PyInt 7) [''budget''], candidate (PyStr ''7'') [''roll call''],
        candidate (PyInt 9) []]
     = map Inr [PyInt 7, PyStr ''7'', PyInt 9] \<and>
   distinct (map hash_key [PyInt 7, PyStr ''7'', PyInt 9]) \<and>
   map fst [(PyInt 7, 100 :: int), (PyStr ''7'', 0), (PyInt 9, 0)] = [PyInt 7, PyStr ''7'', PyInt 9] \<and>
   length [(PyInt 7, 100 :: int), (PyStr ''7'', 0), (PyInt 9, 0)] = 3"
proof -
  let ?evs = "[candidate (PyInt 7) [''budget''], candidate (PyStr ''7'') [''roll call''],
        candidate (PyInt 9) []]"
  let ?r = "\<lparr>selected_event = PyDict (candidate (PyInt 7) [''budget'']),
            match_scores = [(PyInt 7, 100), (PyStr ''7'', 0), (PyInt 9, 0)]\<rparr>"
  have h1: "?evs \<noteq> []" by simp
  have h2: "get_matching_legistar_event_by_minutes_match stub_lib [''Budget''] ?evs = Inr ?r"
    by (simp add: get_matching_legistar_event_by_minutes_match_def stub_lib_def stub_ratio_def
        stub_lower_def candidate_def match_score_def setitem_def)
  have h3: "map (\<lambda>e. getitem (PyDict e) ''EventId'') ?evs = map Inr [PyInt 7, PyStr ''7'', PyInt 9]"
    by (simp add: candidate_def)
  from scores_per_candidate[OF h1 h2] obtain ids where
    ids: "map (\<lambda>e. getitem (PyDict e) ''EventId'') ?evs = map Inr ids"
    and imp: "distinct (map hash_key ids) \<longrightarrow>
              map fst (match_scores ?r) = ids \<and> length (match_scores ?r) = length ?evs"
    by blast
  from ids have "map Inr ids = (map Inr [PyInt 7, PyStr ''7'', PyInt 9] :: (error + pyval) list)"
    unfolding h3 by simp
  then have ids_eq: "ids = [PyInt 7, PyStr ''7'', PyInt 9]" by (auto simp: map_eq_Cons_conv)
  have d: "distinct (map hash_key [PyInt 7, PyStr ''7'', PyInt 9])" by simp
  from imp d have "map fst (match_scores ?r) = [PyInt 7, PyStr ''7'', PyInt 9] \<and>
      length (match_scores ?r) = length ?evs"
    unfolding ids_eq by blast
  then have "map fst [(PyInt 7, 100 :: int), (PyStr ''7'', 0), (PyInt 9, 0)] = [PyInt 7, PyStr ''7'', PyInt 9] \<and>
     length [(PyInt 7, 100 :: int), (PyStr ''7'', 0), (PyInt 9, 0)] = 3"
    by simp
  with h2 h3 d show ?thesis by (intro conjI) simp_all
qed

section \<open>Properties of the normalizer\<close>

lemma getitem_update:
  "getitem (PyDict (AList.update k v d)) k' = (if k' = k then Inr v else getitem (PyDict d) k')"
  by (simp add: update_conv')

lemma getitem_update_items:
  "getitem (PyDict (AList.update ''EventItems'' v d)) ''EventItems'' = Inr v"
  "getitem (PyDict (AList.update ''EventItems'' v d)) ''EventDate'' = getitem (PyDict d) ''EventDate''"
  "getitem (PyDict (AList.update ''EventItems'' v d)) ''EventTime'' = getitem (PyDict d) ''EventTime''"
  "getitem (PyDict (AList.update ''EventItems'' v d)) ''EventAgendaFile'' =
     getitem (PyDict d) ''EventAgendaFile''"
  "getitem (PyDict (AList.update ''EventItems'' v d)) ''EventBodyName'' =
     getitem (PyDict d) ''EventBodyName''"
  "getitem (PyDict (AList.update ''EventItems'' v d)) ''EventId'' = getitem (PyDict d) ''EventId''"
  "getitem (PyDict (AList.update ''EventItems'' v d)) ''EventInSiteURL'' =
     getitem (PyDict d) ''EventInSiteURL''"
  "getitem (PyDict (AList.update ''EventItems'' v d)) ''EventMinutesFile'' =
     getitem (PyDict d) ''EventMinutesFile''"
  by (simp_all add: update_conv')

lemma parse_event_dt_update_items:
  "parse_event_dt L (AList.update ''EventItems'' v d) = parse_event_dt L d"
  unfolding parse_event_dt_def getitem_update_items ..

lemma parse_event_items_append:
  "parse_event_items L ig (xs @ ys) =
     (case parse_event_items L ig xs of
        Inl e \<Rightarrow> Inl e
      | Inr a \<Rightarrow> (case parse_event_items L ig ys of Inl e \<Rightarrow> Inl e | Inr b \<Rightarrow> Inr (a @ b)))"
  by (induction xs) (auto split: sum.splits option.splits)

lemma parse_event_item_ignored:
  assumes "minutes_item_name item = Inr n" and "ignored n ig"
    and "minutes_item_matter item = Inr m"
  shows "parse_event_item L ig item = Inr None"
  using assms by (simp add: parse_event_item_def)

lemma parse_event_item_matter:
  assumes "parse_event_item L ig item = Inr r"
  shows "\<exists>m. minutes_item_matter item = Inr m"
  using assms by (auto simp: parse_event_item_def split: sum.splits)

lemma parse_event_item_not_ignored:
  assumes "parse_event_item L ig item = Inr (Some m)"
  shows "minutes_item_name item = Inr (mi_name m) \<and> \<not> ignored (mi_name m) ig"
  using assms by (auto simp: parse_event_item_def split: sum.splits if_splits prod.splits)

lemma parse_event_items_results:
  "parse_event_items L ig items = Inr ms \<Longrightarrow>
   \<exists>rs. map (parse_event_item L ig) items = map Inr rs \<and> ms = List.map_filter (\<lambda>r. r) rs"
proof (induction items arbitrary: ms)
  case Nil
  then show ?case by (simp add: List.map_filter_simps)
next
  case (Cons item items)
  from Cons.prems obtain r ms' where r: "parse_event_item L ig item = Inr r"
    and ms': "parse_event_items L ig items = Inr ms'"
    and ms: "ms = (case r of None \<Rightarrow> ms' | Some m \<Rightarrow> m # ms')"
    by (auto split: sum.splits)
  from Cons.IH[OF ms'] obtain rs where rs: "map (parse_event_item L ig) items = map Inr rs"
    "ms' = List.map_filter (\<lambda>r. r) rs" by blast
  have "map (parse_event_item L ig) (item # items) = map Inr (r # rs) \<and>
        ms = List.map_filter (\<lambda>r. r) (r # rs)"
    using r rs ms by (cases r) (simp_all add: List.map_filter_simps)
  then show ?case by (rule exI[of _ "r # rs"])
qed

lemma parse_event_items_not_ignored:
  "parse_event_items L ig items = Inr ms \<Longrightarrow> m \<in> set ms \<Longrightarrow> \<not> ignored (mi_name m) ig"
proof (induction items arbitrary: ms)
  case Nil
  then show ?case by simp
next
  case (Cons item items)
  from Cons.prems(1) obtain r ms' where r: "parse_event_item L ig item = Inr r"
    and ms': "parse_event_items L ig items = Inr ms'"
    and ms: "ms = (case r of None \<Rightarrow> ms' | Some m \<Rightarrow> m # ms')"
    by (auto split: sum.splits)
  show ?case
  proof (cases "m \<in> set ms'")
    case True
    from Cons.IH[OF ms' True] show ?thesis .
  next
    case False
    with Cons.prems(2) ms have "r = Some m" by (cases r) auto
    with r parse_event_item_not_ignored show ?thesis by blast
  qed
qed

text \<open>
  The normalizer in terms of its steps: the timestamp, the items and the remaining
  fields of the event.
\<close>

lemma parse_details_Inr:
  assumes "parse_legistar_event_details L d ig = Inr out"
  shows "\<exists>dt v items ms. parse_event_dt L d = Inr dt \<and>
           getitem (PyDict d) ''EventItems'' = Inr v \<and> py_iter v = Inr items \<and>
           parse_event_items L ig items = Inr ms \<and>
           minutes_items out = sort_key mi_index ms \<and> event_datetime out = dt"
  using assms unfolding parse_legistar_event_details_def
  by (auto split: sum.splits)

lemma parse_details_update_items:
  assumes "parse_event_items L ig xs = parse_event_items L ig ys"
  shows "parse_legistar_event_details L (AList.update ''EventItems'' (PyList xs) d) ig =
         parse_legistar_event_details L (AList.update ''EventItems'' (PyList ys) d) ig"
  unfolding parse_legistar_event_details_def parse_event_dt_update_items getitem_update_items
    py_iter.simps sum.case assms ..

lemmas normalizer_defs =
  parse_legistar_event_details_def parse_event_dt_def parse_event_item_def
  minutes_item_name_def minutes_item_matter_def ignored_def item_index_def item_attachments_def
  item_votes_def parse_vote_def parse_person_def parse_attachment_def split_T_0_def

lemmas sample_defs =
  stub_lib_def stub_strptime_def stub_int_of_str_def raw_event_def raw_item_def raw_vote_def

text \<open>
  C6. The minutes items of the output are in non-decreasing order of their index, and the
  sort is stable: the output items with a given index are, in this order, the items with
  that index among the items the loop produced, which are the results of the single
  event items in the order of the input.
\<close>

theorem minutes_items_sorted_stable:
  assumes "parse_legistar_event_details L d ig = Inr out"
  shows "sorted (map mi_index (minutes_items out)) \<and>
         (\<exists>v items rs.
            getitem (PyDict d) ''EventItems'' = Inr v \<and> py_iter v = Inr items \<and>
            map (parse_event_item L ig) items = map Inr rs \<and>
            length (minutes_items out) = length (List.map_filter (\<lambda>r. r) rs) \<and>
            (\<forall>k. filter (\<lambda>m. mi_index m = k) (minutes_items out) =
                  filter (\<lambda>m. mi_index m = k) (List.map_filter (\<lambda>r. r) rs)))"
proof -
  from parse_details_Inr[OF assms] obtain v items ms where
    v: "getitem (PyDict d) ''EventItems'' = Inr v" and items: "py_iter v = Inr items"
    and ms: "parse_event_items L ig items = Inr ms"
    and out: "minutes_items out = sort_key mi_index ms"
    by blast
  from parse_event_items_results[OF ms] obtain rs where
    rs: "map (parse_event_item L ig) items = map Inr rs" "ms = List.map_filter (\<lambda>r. r) rs"
    by blast
  have s: "sorted (map mi_index (minutes_items out))" unfolding out by simp
  have l: "length (minutes_items out) = length (List.map_filter (\<lambda>r. r) rs)"
    unfolding out rs(2) by simp
  have f: "\<forall>k. filter (\<lambda>m. mi_index m = k) (minutes_items out) =
                filter (\<lambda>m. mi_index m = k) (List.map_filter (\<lambda>r. r) rs)"
    unfolding out rs(2) by (simp add: sort_key_stable)
  from v items rs(1) l f have "\<exists>v items rs.
            getitem (PyDict d) ''EventItems'' = Inr v \<and> py_iter v = Inr items \<and>
            map (parse_event_item L ig) items = map Inr rs \<and>
            length (minutes_items out) = length (List.map_filter (\<lambda>r. r) rs) \<and>
            (\<forall>k. filter (\<lambda>m. mi_index m = k) (minutes_items out) =
                  filter (\<lambda>m. mi_index m = k) (List.map_filter (\<lambda>r. r) rs))"
    by (intro exI conjI)
  with s show ?thesis ..
qed


theorem minutes_items_sorted_stable_witness:
  "parse_legistar_event_details stub_lib
       (raw_event [raw_item 1 ''A'' (PyInt 2) PyNone [], raw_item 2 ''B'' (PyInt 1) PyNone [],
                   raw_item 3 ''C'' (PyInt 2) PyNone []]) []
     = Inr \<lparr>agenda_file_uri = PyNone, body = PyStr ''City Council'',
            event_datetime =
              \<lparr>dt_year = 2019, dt_month = 4, dt_day = 16, dt_hour = 14, dt_minute = 0\<rparr>,
            minutes_items =
              [\<lparr>mi_name = PyStr ''B'', mi_matter = PyNone, mi_index = 1,
                legistar_event_item_id = 2, mi_decision = Some PyNone, mi_votes = [],
                mi_attachments = []\<rparr>,
               \<lparr>mi_name = PyStr ''A'', mi_matter = PyNone, mi_index = 2,
                legistar_event_item_id = 1, mi_decision = Some PyNone, mi_votes = [],
                mi_attachments = []\<rparr>,
               \<lparr>mi_name = PyStr ''C'', mi_matter = PyNone, mi_index = 2,
                legistar_event_item_id = 3, mi_decision = Some PyNone, mi_votes = [],
                mi_attachments = []\<rparr>],
            legistar_event_id = 4053, legistar_event_link = PyNone,
            minutes_file_uri = PyNone\<rparr> \<and>
   sorted [1, 2, 2 :: int]"
proof -
  let ?out = "\<lparr>agenda_file_uri = PyNone, body = PyStr ''City Council'',
            event_datetime =
              \<lparr>dt_year = 2019, dt_month = 4, dt_day = 16, dt_hour = 14, dt_minute = 0\<rparr>,
            minutes_items =
              [\<lparr>mi_name = PyStr ''B'', mi_matter = PyNone, mi_index = 1,
                legistar_event_item_id = 2, mi_decision = Some PyNone, mi_votes = [],
                mi_attachments = []\<rparr>,
               \<lparr>mi_name = PyStr ''A'', mi_matter = PyNone, mi_index = 2,
                legistar_event_item_id = 1, mi_decision = Some PyNone, mi_votes = [],
                mi_attachments = []\<rparr>,
               \<lparr>mi_name = PyStr ''C'', mi_matter = PyNone, mi_index = 2,
                legistar_event_item_id = 3, mi_decision = Some PyNone, mi_votes = [],
                mi_attachments = []\<rparr>],
            legistar_event_id = 4053, legistar_event_link = PyNone,
            minutes_file_uri = PyNone\<rparr>"
  have h: "parse_legistar_event_details stub_lib
       (raw_event [raw_item 1 ''A'' (PyInt 2) PyNone [], raw_item 2 ''B'' (PyInt 1) PyNone [],
                   raw_item 3 ''C'' (PyInt 2) PyNone []]) [] = Inr ?out"
    by (simp add: normalizer_defs sample_defs)
  from minutes_items_sorted_stable[OF h] have "sorted (map mi_index (minutes_items ?out))" ..
  then have "sorted [1, 2, 2 :: int]" by simp
  with h show ?thesis ..
qed

lemma parse_details_items_error:
  assumes "parse_event_items L ig items = Inl e"
  shows "\<exists>e'. parse_legistar_event_details L
                 (AList.update ''EventItems'' (PyList items) d) ig = Inl e'"
proof (cases "parse_event_dt L d")
  case (Inl e0)
  then have "parse_event_dt L (AList.update ''EventItems'' (PyList items) d) = Inl e0"
    by (simp only: parse_event_dt_update_items)
  then show ?thesis by (simp add: parse_legistar_event_details_def)
next
  case (Inr dt)
  then have dt: "parse_event_dt L (AList.update ''EventItems'' (PyList items) d) = Inr dt"
    by (simp only: parse_event_dt_update_items)
  have "parse_legistar_event_details L (AList.update ''EventItems'' (PyList items) d) ig = Inl e"
    unfolding parse_legistar_event_details_def dt getitem_update_items py_iter.simps sum.case
      assms ..
  then show ?thesis ..
qed

text \<open>
  C7. As stated, the claim fails: the matter of an item is resolved (lines 200 to 203)
  before the ignore list is consulted (line 206), so an item with an ignored display
  name, a falsy matter name and no key \<^verbatim>\<open>EventItemMatterFile\<close> makes the whole
  call fail with \<^verbatim>\<open>KeyError\<close>, while the same event without that item is
  normalized.
\<close>

theorem ignored_item_counterexample:
  "minutes_item_name (PyDict [(''EventItemId'', PyInt 2), (''EventItemMatterName'', PyNone),
                              (''EventItemTitle'', PyStr ''Roll Call'')])
     = Inr (PyStr ''Roll Call'') \<and>
   parse_legistar_event_details stub_lib
       (raw_event [raw_item 1 ''A'' (PyInt 2) PyNone [],
                   PyDict [(''EventItemId'', PyInt 2), (''EventItemMatterName'', PyNone),
                           (''EventItemTitle'', PyStr ''Roll Call'')],
                   raw_item 3 ''C'' (PyInt 3) PyNone []]) [''Roll Call'']
     = Inl (KeyError ''EventItemMatterFile'') \<and>
   parse_legistar_event_details stub_lib
       (raw_event [raw_item 1 ''A'' (PyInt 2) PyNone [],
                   raw_item 3 ''C'' (PyInt 3) PyNone []]) [''Roll Call'']
     = Inr \<lparr>agenda_file_uri = PyNone, body = PyStr ''City Council'',
            event_datetime =
              \<lparr>dt_year = 2019, dt_month = 4, dt_day = 16, dt_hour = 14, dt_minute = 0\<rparr>,
            minutes_items =
              [\<lparr>mi_name = PyStr ''A'', mi_matter = PyNone, mi_index = 2,
                legistar_event_item_id = 1, mi_decision = Some PyNone, mi_votes = [],
                mi_attachments = []\<rparr>,
               \<lparr>mi_name = PyStr ''C'', mi_matter = PyNone, mi_index = 3,
                legistar_event_item_id = 3, mi_decision = Some PyNone, mi_votes = [],
                mi_attachments = []\<rparr>],
            legistar_event_id = 4053, legistar_event_link = PyNone,
            minutes_file_uri = PyNone\<rparr>"
  by (simp add: normalizer_defs sample_defs)

text \<open>
  C7, amended. For an item whose display name (the matter name when truthy, the title
  otherwise) is a string of the ignore list: when its matter resolves as well (the
  matter name is truthy, or the item has the key \<^verbatim>\<open>EventItemMatterFile\<close>), the item
  yields no minutes item and its presence changes nothing, the results of the normalizer
  for the event with and without the item being equal, errors included; when its matter
  does not resolve, the call for the event with the item fails. In every case no minutes
  item of an output bears an ignored name.
\<close>

theorem ignored_item_dropped:
  assumes "minutes_item_name item = Inr (PyStr s)" and "s \<in> set ig"
  shows "(\<forall>m. minutes_item_matter item = Inr m \<longrightarrow>
            parse_legistar_event_details L
                   (AList.update ''EventItems'' (PyList (xs @ item # ys)) d) ig =
            parse_legistar_event_details L
                   (AList.update ''EventItems'' (PyList (xs @ ys)) d) ig) \<and>
         (\<forall>e. minutes_item_matter item = Inl e \<longrightarrow>
            (\<exists>e'. parse_legistar_event_details L
                   (AList.update ''EventItems'' (PyList (xs @ item # ys)) d) ig = Inl e')) \<and>
         (\<forall>out. parse_legistar_event_details L
                   (AList.update ''EventItems'' (PyList (xs @ item # ys)) d) ig = Inr out \<longrightarrow>
            (\<forall>m\<in>set (minutes_items out). \<not> ignored (mi_name m) ig))"
proof -
  let ?with = "AList.update ''EventItems'' (PyList (xs @ item # ys)) d"
  let ?without = "AList.update ''EventItems'' (PyList (xs @ ys)) d"
  from assms have ign: "ignored (PyStr s) ig" by (simp add: ignored_def)
  have same: "parse_legistar_event_details L ?with ig = parse_legistar_event_details L ?without ig"
    if "minutes_item_matter item = Inr m" for m
  proof -
    from parse_event_item_ignored[OF assms(1) ign that]
    have "parse_event_item L ig item = Inr None" .
    then have "parse_event_items L ig (item # ys) = parse_event_items L ig ys"
      by (simp split: sum.splits)
    then have "parse_event_items L ig (xs @ item # ys) = parse_event_items L ig (xs @ ys)"
      by (simp only: parse_event_items_append)
    then show ?thesis by (rule parse_details_update_items)
  qed
  have fails: "\<exists>e'. parse_legistar_event_details L ?with ig = Inl e'"
    if "minutes_item_matter item = Inl e" for e
  proof -
    from that assms(1) have "parse_event_item L ig item = Inl e"
      by (simp add: parse_event_item_def)
    then have "parse_event_items L ig (item # ys) = Inl e" by simp
    then have "\<exists>e1. parse_event_items L ig (xs @ item # ys) = Inl e1"
      by (cases "parse_event_items L ig xs") (simp_all add: parse_event_items_append)
    then obtain e1 where "parse_event_items L ig (xs @ item # ys) = Inl e1" ..
    then show ?thesis by (rule parse_details_items_error)
  qed
  have clean: "\<forall>m\<in>set (minutes_items out). \<not> ignored (mi_name m) ig"
    if out: "parse_legistar_event_details L ?with ig = Inr out" for out
  proof -
    from parse_details_Inr[OF out] obtain items ms where
      ms: "parse_event_items L ig items = Inr ms"
      and sorted: "minutes_items out = sort_key mi_index ms"
      by blast
    show ?thesis unfolding sorted using parse_event_items_not_ignored[OF ms] by simp
  qed
  from same fails clean show ?thesis by blast
qed

theorem ignored_item_dropped_witness:
  "parse_legistar_event_details stub_lib
       (AList.update ''EventItems''
          (PyList ([raw_item 1 ''A'' (PyInt 2) PyNone []] @
                   raw_item 2 ''Roll Call'' (PyInt 1) PyNone [] #
                   [raw_item 3 ''C'' (PyInt 3) PyNone []])) (raw_event [])) [''Roll Call'']
     = parse_legistar_event_details stub_lib
       (AList.update ''EventItems''
          (PyList ([raw_item 1 ''A'' (PyInt 2) PyNone []] @
                   [raw_item 3 ''C'' (PyInt 3) PyNone []])) (raw_event [])) [''Roll Call''] \<and>
   parse_legistar_event_details stub_lib
       (AList.update ''EventItems''
          (PyList ([raw_item 1 ''A'' (PyInt 2) PyNone []] @
                   raw_item 2 ''Roll Call'' (PyInt 1) PyNone [] #
                   [raw_item 3 ''C'' (PyInt 3) PyNone []])) (raw_event [])) [''Roll Call'']
     = Inr \<lparr>agenda_file_uri = PyNone, body = PyStr ''City Council'',
            event_datetime =
              \<lparr>dt_year = 2019, dt_month = 4, dt_day = 16, dt_hour = 14, dt_minute = 0\<rparr>,
            minutes_items =
              [\<lparr>mi_name = PyStr ''A'', mi_matter = PyNone, mi_index = 2,
                legistar_event_item_id = 1, mi_decision = Some PyNone, mi_votes = [],
                mi_attachments = []\<rparr>,
               \<lparr>mi_name = PyStr ''C'', mi_matter = PyNone, mi_index = 3,
                legistar_event_item_id = 3, mi_decision = Some PyNone, mi_votes = [],
                mi_attachments = []\<rparr>],
            legistar_event_id = 4053, legistar_event_link = PyNone,
            minutes_file_uri = PyNone\<rparr>"
proof -
  let ?item = "raw_item 2 ''Roll Call'' (PyInt 1) PyNone []"
  have h1: "minutes_item_name ?item = Inr (PyStr ''Roll Call'')"
    by (simp add: minutes_item_name_def raw_item_def)
  have h2: "''Roll Call'' \<in> set [''Roll Call'']" by simp
  have h3: "minutes_item_matter ?item = Inr PyNone"
    by (simp add: minutes_item_matter_def raw_item_def)
  from ignored_item_dropped[OF h1 h2, of stub_lib "[raw_item 1 ''A'' (PyInt 2) PyNone []]"
      "[raw_item 3 ''C'' (PyInt 3) PyNone []]" "raw_event []"] h3
  have eq: "parse_legistar_event_details stub_lib
       (AList.update ''EventItems''
          (PyList ([raw_item 1 ''A'' (PyInt 2) PyNone []] @ ?item #
                   [raw_item 3 ''C'' (PyInt 3) PyNone []])) (raw_event [])) [''Roll Call'']
     = parse_legistar_event_details stub_lib
       (AList.update ''EventItems''
          (PyList ([raw_item 1 ''A'' (PyInt 2) PyNone []] @
                   [raw_item 3 ''C'' (PyInt 3) PyNone []])) (raw_event [])) [''Roll Call'']"
    by blast
  have val: "parse_legistar_event_details stub_lib
       (AList.update ''EventItems''
          (PyList ([raw_item 1 ''A'' (PyInt 2) PyNone []] @ ?item #
                   [raw_item 3 ''C'' (PyInt 3) PyNone []])) (raw_event [])) [''Roll Call'']
     = Inr \<lparr>agenda_file_uri = PyNone, body = PyStr ''City Council'',
            event_datetime =
              \<lparr>dt_year = 2019, dt_month = 4, dt_day = 16, dt_hour = 14, dt_minute = 0\<rparr>,
            minutes_items =
              [\<lparr>mi_name = PyStr ''A'', mi_matter = PyNone, mi_index = 2,
                legistar_event_item_id = 1, mi_decision = Some PyNone, mi_votes = [],
                mi_attachments = []\<rparr>,
               \<lparr>mi_name = PyStr ''C'', mi_matter = PyNone, mi_index = 3,
                legistar_event_item_id = 3, mi_decision = Some PyNone, mi_votes = [],
                mi_attachments = []\<rparr>],
            legistar_event_id = 4053, legistar_event_link = PyNone,
            minutes_file_uri = PyNone\<rparr>"
    by (simp add: normalizer_defs sample_defs)
  from eq val show ?thesis ..
qed

lemma parse_details_timestamp_error:
  "parse_event_dt L d = Inl e \<Longrightarrow> parse_legistar_event_details L d ig = Inl e"
  by (simp add: parse_legistar_event_details_def)

text \<open>
  C8. When the date or the time of the event is missing, or the date is not a string, or
  the date part joined with the time does not parse with the format
  \<^verbatim>\<open>%Y-%m-%dT%I:%M %p\<close>, the normalizer fails: the result is an error, raised by
  the timestamp step of lines 186 to 188 (\<^verbatim>\<open>KeyError\<close> for a missing field,
  \<^verbatim>\<open>AttributeError\<close> for a date without \<^verbatim>\<open>split\<close>, \<^verbatim>\<open>ValueError\<close> from
  \<^verbatim>\<open>strptime\<close>), and no event is returned.
\<close>

theorem timestamp_failure_is_fatal:
  assumes "map_of d ''EventDate'' = None \<or> map_of d ''EventTime'' = None \<or>
           (\<exists>v. map_of d ''EventDate'' = Some v \<and> (\<forall>s. v \<noteq> PyStr s)) \<or>
           (\<exists>s t. map_of d ''EventDate'' = Some (PyStr s) \<and> map_of d ''EventTime'' = Some t \<and>
                  strptime L (split_T_0 s @ ''T'' @ py_format L t) = None)"
  shows "\<exists>e. parse_legistar_event_details L d ig = Inl e \<and>
             parse_event_dt L d = Inl e \<and>
             (e = KeyError ''EventDate'' \<or> e = KeyError ''EventTime'' \<or>
              e = AttributeError \<or> e = ValueError)"
proof -
  have "\<exists>e. parse_event_dt L d = Inl e \<and>
             (e = KeyError ''EventDate'' \<or> e = KeyError ''EventTime'' \<or>
              e = AttributeError \<or> e = ValueError)"
  proof (cases "map_of d ''EventDate''")
    case None
    then show ?thesis by (simp add: parse_event_dt_def)
  next
    case (Some v)
    show ?thesis
    proof (cases "\<exists>s. v = PyStr s")
      case False
      with Some show ?thesis by (cases v) (simp_all add: parse_event_dt_def)
    next
      case True
      then obtain s where v: "v = PyStr s" ..
      show ?thesis
      proof (cases "map_of d ''EventTime''")
        case None
        with Some v show ?thesis by (simp add: parse_event_dt_def)
      next
        case (Some t)
        with assms \<open>map_of d ''EventDate'' = Some v\<close> v
        have "strptime L (split_T_0 s @ ''T'' @ py_format L t) = None" by auto
        with Some \<open>map_of d ''EventDate'' = Some v\<close> v show ?thesis
          by (simp add: parse_event_dt_def)
      qed
    qed
  qed
  then obtain e where e: "parse_event_dt L d = Inl e"
    "e = KeyError ''EventDate'' \<or> e = KeyError ''EventTime'' \<or> e = AttributeError \<or> e = ValueError"
    by blast
  from parse_details_timestamp_error[OF e(1)] e show ?thesis by blast
qed

theorem timestamp_failure_is_fatal_witness:
  "parse_legistar_event_details stub_lib
     [(''EventId'', PyInt 4053), (''EventDate'', PyStr ''2019-04-16T00:00:00''),
      (''EventTime'', PyStr ''14 o clock''), (''EventAgendaFile'', PyNone),
      (''EventMinutesFile'', PyNone), (''EventBodyName'', PyStr ''City Council''),
      (''EventInSiteURL'', PyNone), (''EventItems'', PyList [])] []
     = Inl ValueError \<and>
   parse_legistar_event_details stub_lib
     [(''EventId'', PyInt 4053), (''EventDate'', PyStr ''2019-04-16T00:00:00''),
      (''EventAgendaFile'', PyNone),
      (''EventMinutesFile'', PyNone), (''EventBodyName'', PyStr ''City Council''),
      (''EventInSiteURL'', PyNone), (''EventItems'', PyList [])] []
     = Inl (KeyError ''EventTime'')"
proof -
  let ?bad = "[(''EventId'', PyInt 4053), (''EventDate'', PyStr ''2019-04-16T00:00:00''),
      (''EventTime'', PyStr ''14 o clock''), (''EventAgendaFile'', PyNone),
      (''EventMinutesFile'', PyNone), (''EventBodyName'', PyStr ''City Council''),
      (''EventInSiteURL'', PyNone), (''EventItems'', PyList [])]"
  let ?missing = "[(''EventId'', PyInt 4053), (''EventDate'', PyStr ''2019-04-16T00:00:00''),
      (''EventAgendaFile'', PyNone),
      (''EventMinutesFile'', PyNone), (''EventBodyName'', PyStr ''City Council''),
      (''EventInSiteURL'', PyNone), (''EventItems'', PyList [])]"
  have h1: "map_of ?bad ''EventDate'' = None \<or> map_of ?bad ''EventTime'' = None \<or>
           (\<exists>v. map_of ?bad ''EventDate'' = Some v \<and> (\<forall>s. v \<noteq> PyStr s)) \<or>
           (\<exists>s t. map_of ?bad ''EventDate'' = Some (PyStr s) \<and> map_of ?bad ''EventTime'' = Some t \<and>
                  strptime stub_lib (split_T_0 s @ ''T'' @ py_format stub_lib t) = None)"
    by (simp add: stub_lib_def stub_strptime_def split_T_0_def)
  have h2: "map_of ?missing ''EventDate'' = None \<or> map_of ?missing ''EventTime'' = None \<or>
           (\<exists>v. map_of ?missing ''EventDate'' = Some v \<and> (\<forall>s. v \<noteq> PyStr s)) \<or>
           (\<exists>s t. map_of ?missing ''EventDate'' = Some (PyStr s) \<and>
                  map_of ?missing ''EventTime'' = Some t \<and>
                  strptime stub_lib (split_T_0 s @ ''T'' @ py_format stub_lib t) = None)"
    by simp
  have d1: "parse_event_dt stub_lib ?bad = Inl ValueError"
    by (simp add: parse_event_dt_def stub_lib_def stub_strptime_def split_T_0_def)
  have d2: "parse_event_dt stub_lib ?missing = Inl (KeyError ''EventTime'')"
    by (simp add: parse_event_dt_def)
  from timestamp_failure_is_fatal[OF h1, of "[]"] obtain e1 where
    "parse_legistar_event_details stub_lib ?bad [] = Inl e1" "parse_event_dt stub_lib ?bad = Inl e1"
    by blast
  with d1 have r1: "parse_legistar_event_details stub_lib ?bad [] = Inl ValueError" by simp
  from timestamp_failure_is_fatal[OF h2, of "[]"] obtain e2 where
    "parse_legistar_event_details stub_lib ?missing [] = Inl e2"
    "parse_event_dt stub_lib ?missing = Inl e2"
    by blast
  with d2 have r2: "parse_legistar_event_details stub_lib ?missing [] = Inl (KeyError ''EventTime'')"
    by simp
  from r1 r2 show ?thesis ..
qed

subsection \<open>Decision, votes, identifiers and index of a minutes item\<close>

lemma parse_votes_state:
  "parse_votes L flag vote_infos (votes, decision) = Inr (votes', decision') \<Longrightarrow>
   decision' = (if vote_infos = [] then decision else Some flag) \<and>
   length votes' = length votes + length vote_infos"
proof (induction vote_infos arbitrary: votes decision)
  case Nil
  then show ?case by simp
next
  case (Cons vote_info vote_infos)
  from Cons.prems obtain v where
    "parse_votes L flag vote_infos (votes @ [v], Some flag) = Inr (votes', decision')"
    by (auto split: sum.splits)
  from Cons.IH[OF this] show ?case by (simp split: if_splits)
qed

text \<open>
  What the code does for the decision: with a falsy passed flag the decision is
  \<^verbatim>\<open>None\<close> and there are no votes, whatever \<^verbatim>\<open>EventItemVoteInfo\<close> holds; with
  a truthy flag there is one vote per vote record, and the decision is the flag when
  there is at least one vote record and is not assigned when there is none.
\<close>

lemma item_votes_falsy:
  assumes "getitem item ''EventItemPassedFlagName'' = Inr flag" and "\<not> truthy flag"
  shows "item_votes L item = Inr ([], Some PyNone)"
  using assms by (simp add: item_votes_def)

lemma item_votes_truthy:
  assumes "getitem item ''EventItemPassedFlagName'' = Inr flag" and "truthy flag"
    and "item_votes L item = Inr (votes, decision)"
  shows "decision = (if votes = [] then None else Some flag)"
proof -
  from assms obtain vote_infos where
    "parse_votes L flag vote_infos ([], None) = Inr (votes, decision)"
    by (auto simp: item_votes_def split: sum.splits)
  from parse_votes_state[OF this] show ?thesis by auto
qed

lemma minutes_item_decision:
  assumes "parse_event_item L ig item = Inr (Some m)"
  shows "\<exists>flag. getitem item ''EventItemPassedFlagName'' = Inr flag \<and>
           (if truthy flag
            then mi_decision m = (if mi_votes m = [] then None else Some flag)
            else mi_decision m = Some PyNone \<and> mi_votes m = [])"
proof -
  from assms obtain votes decision where iv: "item_votes L item = Inr (votes, decision)"
    and m: "mi_votes m = votes" "mi_decision m = decision"
    by (auto simp: parse_event_item_def split: sum.splits if_splits prod.splits)
  from iv obtain flag where flag: "getitem item ''EventItemPassedFlagName'' = Inr flag"
    by (auto simp: item_votes_def split: sum.splits)
  show ?thesis
  proof (cases "truthy flag")
    case True
    from item_votes_truthy[OF flag True iv] m flag True show ?thesis by simp
  next
    case False
    from item_votes_falsy[OF flag False, of L] iv m flag False show ?thesis by simp
  qed
qed

text \<open>
  C1. The claim: a minutes item has the decision of the item's passed flag exactly when
  the flag is truthy, also when the item has no votes; with a falsy flag the decision is
  \<^verbatim>\<open>None\<close> and the votes are empty. The code breaks it for an item whose passed
  flag is truthy and whose vote list is empty: line 251 stores the decision inside the
  loop over the votes, so the minutes item gets no decision at all, although the flag is
  \<^verbatim>\<open>Pass\<close>.
\<close>

theorem decision_absent_without_votes:
  "parse_legistar_event_details stub_lib
       (raw_event [raw_item 10 ''Resolution 1'' (PyInt 1) (PyStr ''Pass'') []]) []
     = Inr \<lparr>agenda_file_uri = PyNone, body = PyStr ''City Council'',
            event_datetime =
              \<lparr>dt_year = 2019, dt_month = 4, dt_day = 16, dt_hour = 14, dt_minute = 0\<rparr>,
            minutes_items =
              [\<lparr>mi_name = PyStr ''Resolution 1'', mi_matter = PyNone, mi_index = 1,
                legistar_event_item_id = 10, mi_decision = None, mi_votes = [],
                mi_attachments = []\<rparr>],
            legistar_event_id = 4053, legistar_event_link = PyNone,
            minutes_file_uri = PyNone\<rparr>"
  by (simp add: normalizer_defs sample_defs)

text \<open>
  The identifier of a vote goes through \<^verbatim>\<open>int()\<close>, the identifier of its person is
  the input value.
\<close>

lemma parse_person_id:
  assumes "parse_person person_info = Inr p"
  shows "getitem person_info ''PersonId'' = Inr (legistar_person_id p)"
  using assms by (auto simp: parse_person_def split: sum.splits)

lemma parse_vote_ids:
  assumes "parse_vote L vote_info = Inr v"
  shows "\<exists>i person_info. getitem vote_info ''VoteId'' = Inr i \<and>
           py_int L i = Inr (legistar_event_item_vote_id v) \<and>
           getitem vote_info ''PersonInfo'' = Inr person_info \<and>
           getitem person_info ''PersonId'' = Inr (legistar_person_id (vote_person v))"
  using assms by (auto simp: parse_vote_def split: sum.splits dest: parse_person_id)

text \<open>
  C2. The claim: every identifier of the output is an integer, the identifier of an
  embedded person included, also when the input gives a string or a decimal. The code
  breaks it for the identifier of a person: line 248 copies
  \<^verbatim>\<open>PersonId\<close> without \<^verbatim>\<open>int()\<close>, so a person identifier that arrives as the
  string \<^verbatim>\<open>"7"\<close> leaves as that string, while the event identifier
  \<^verbatim>\<open>"4053"\<close> and the vote identifier \<^verbatim>\<open>"31"\<close> of the same input leave as
  integers.
\<close>

theorem person_id_not_coerced:
  "parse_legistar_event_details stub_lib
       (raw_event [raw_item 10 ''Resolution 1'' (PyInt 1) (PyStr ''Pass'')
                     [raw_vote (PyStr ''31'') (PyStr ''7'')]]) []
     = Inr \<lparr>agenda_file_uri = PyNone, body = PyStr ''City Council'',
            event_datetime =
              \<lparr>dt_year = 2019, dt_month = 4, dt_day = 16, dt_hour = 14, dt_minute = 0\<rparr>,
            minutes_items =
              [\<lparr>mi_name = PyStr ''Resolution 1'', mi_matter = PyNone, mi_index = 1,
                legistar_event_item_id = 10, mi_decision = Some (PyStr ''Pass''),
                mi_votes =
                  [\<lparr>vote_decision = PyStr ''In Favor'', legistar_event_item_vote_id = 31,
                    vote_person =
                      \<lparr>full_name = PyStr ''A. Member'', email = PyNone, phone = PyNone,
                       website = PyNone, legistar_person_id = PyStr ''7''\<rparr>\<rparr>],
                mi_attachments = []\<rparr>],
            legistar_event_id = 4053, legistar_event_link = PyNone,
            minutes_file_uri = PyNone\<rparr>"
  by (simp add: normalizer_defs sample_defs)

text \<open>
  The index of a minutes item: the integer of the minutes sequence when that value is
  truthy, and -1, without an error, when it is present and falsy.
\<close>

lemma item_index_falsy:
  assumes "getitem item ''EventItemMinutesSequence'' = Inr v" and "\<not> truthy v"
  shows "item_index L item = Inr (- 1)"
  using assms by (simp add: item_index_def)

lemma item_index_truthy:
  assumes "getitem item ''EventItemMinutesSequence'' = Inr v" and "truthy v"
  shows "item_index L item = py_int L v"
  using assms by (simp add: item_index_def)

lemma minutes_item_index:
  assumes "parse_event_item L ig item = Inr (Some m)"
  shows "item_index L item = Inr (mi_index m)"
  using assms by (auto simp: parse_event_item_def split: sum.splits if_splits prod.splits)

text \<open>
  C3. The claim: the index is the integer of the minutes sequence when that value is
  truthy and -1 when it is absent or falsy, and in the latter two cases the
  normalization does not fail. The code breaks it for an item without the key
  \<^verbatim>\<open>EventItemMinutesSequence\<close>: line 209 subscripts the item, which raises
  \<^verbatim>\<open>KeyError\<close>, so the normalization fails instead of giving the index -1.
\<close>

theorem missing_sequence_raises:
  "parse_legistar_event_details stub_lib
       (raw_event [PyDict [(''EventItemId'', PyInt 10),
                           (''EventItemMatterName'', PyNone),
                           (''EventItemTitle'', PyStr ''Resolution 1''),
                           (''EventItemMatterFile'', PyNone),
                           (''EventItemPassedFlagName'', PyNone),
                           (''EventItemMatterAttachments'', PyList []),
                           (''EventItemVoteInfo'', PyList [])]]) []
     = Inl (KeyError ''EventItemMinutesSequence'')"
  by (simp add: normalizer_defs sample_defs)

end
